theory Spec2Isabelle
  imports Complex_Main
begin

section \<open>GLSL values\<close>

text \<open>
  The shaders compute on \<open>float\<close>, \<open>vec2\<close>, \<open>vec3\<close>, \<open>vec4\<close>, \<open>mat4\<close>, \<open>int\<close> and
  \<open>ivec2\<close>. A \<open>float\<close> is modelled as a real number: infinities and NaN are outside the
  model, and so is rounding, except in \<open>smoothstep\<close>, where every operation is followed by the
  rounding of the arithmetic. Vectors are datatypes with one selector per component; the
  built-in operators act per component, as GLSL defines them.
\<close>

datatype vec2 = Vec2 (x2: real) (y2: real)

datatype vec3 = Vec3 (x3: real) (y3: real) (z3: real)

datatype vec4 = Vec4 (r4: real) (g4: real) (b4: real) (a4: real)

datatype ivec2 = IVec2 (ix: int) (iy: int)

text \<open>A \<open>mat4\<close> is column-major: the constructor takes its four columns, and \<open>m[i]\<close> is column \<open>i\<close>.\<close>

datatype mat4 = Mat4 (col0: vec4) (col1: vec4) (col2: vec4) (col3: vec4)

definition ivec2_add :: "ivec2 \<Rightarrow> ivec2 \<Rightarrow> ivec2" where
  "ivec2_add p q = IVec2 (ix p + ix q) (iy p + iy q)"

definition vec2_sub :: "vec2 \<Rightarrow> vec2 \<Rightarrow> vec2" where
  "vec2_sub p q = Vec2 (x2 p - x2 q) (y2 p - y2 q)"

definition vec2_mul :: "vec2 \<Rightarrow> vec2 \<Rightarrow> vec2" where
  "vec2_mul p q = Vec2 (x2 p * x2 q) (y2 p * y2 q)"

text \<open>The swizzle \<open>.gb\<close> of a \<open>vec4\<close>, and \<open>vec4(v.rgb, 1.0)\<close>.\<close>

definition gb :: "vec4 \<Rightarrow> vec2" where
  "gb v = Vec2 (g4 v) (b4 v)"

definition rgb_one :: "vec4 \<Rightarrow> vec4" where
  "rgb_one v = Vec4 (r4 v) (g4 v) (b4 v) 1"

text \<open>GLSL \<open>mix(x, y, a) = x * (1 - a) + y * a\<close>, on floats and per component.\<close>

definition mix :: "real \<Rightarrow> real \<Rightarrow> real \<Rightarrow> real" where
  "mix x y t = x * (1 - t) + y * t"

definition mix3 :: "vec3 \<Rightarrow> vec3 \<Rightarrow> real \<Rightarrow> vec3" where
  "mix3 p q t = Vec3 (mix (x3 p) (x3 q) t) (mix (y3 p) (y3 q) t) (mix (z3 p) (z3 q) t)"

definition mix4 :: "vec4 \<Rightarrow> vec4 \<Rightarrow> real \<Rightarrow> vec4" where
  "mix4 p q t =
     Vec4 (mix (r4 p) (r4 q) t) (mix (g4 p) (g4 q) t) (mix (b4 p) (b4 q) t) (mix (a4 p) (a4 q) t)"

text \<open>
  Integer \<open>%\<close> and \<open>/\<close>: GLSL leaves the result undefined when an operand is negative or
  the divisor is zero, so the model has no value there. The conversion \<open>int(f)\<close> drops
  the fractional part.
\<close>

definition glsl_imod :: "int \<Rightarrow> int \<Rightarrow> int option" where
  "glsl_imod m n = (if 0 \<le> m \<and> 0 < n then Some (m mod n) else None)"

definition glsl_idiv :: "int \<Rightarrow> int \<Rightarrow> int option" where
  "glsl_idiv m n = (if 0 \<le> m \<and> 0 < n then Some (m div n) else None)"

definition float_to_int :: "real \<Rightarrow> int" where
  "float_to_int f = (if 0 \<le> f then \<lfloor>f\<rfloor> else \<lceil>f\<rceil>)"

text \<open>Indexing a \<open>mat4\<close> by column then component; an index outside 0..3 has no value.\<close>

definition mat4_column :: "mat4 \<Rightarrow> int \<Rightarrow> vec4 option" where
  "mat4_column m i =
     (if i = 0 then Some (col0 m) else if i = 1 then Some (col1 m)
      else if i = 2 then Some (col2 m) else if i = 3 then Some (col3 m) else None)"

definition vec4_component :: "vec4 \<Rightarrow> int \<Rightarrow> real option" where
  "vec4_component v j =
     (if j = 0 then Some (r4 v) else if j = 1 then Some (g4 v)
      else if j = 2 then Some (b4 v) else if j = 3 then Some (a4 v) else None)"

definition mat4_index :: "mat4 \<Rightarrow> int \<Rightarrow> int \<Rightarrow> real option" where
  "mat4_index m i j = Option.bind (mat4_column m i) (\<lambda>c. vec4_component c j)"

section \<open>The temporal resolve shader (cloudsResolve.frag)\<close>

subsection \<open>Uniforms, inputs and outputs\<close>

text \<open>
  The preprocessor symbols the shader tests. A buffer read with \<open>texelFetch\<close> is a function of
  the integer texel coordinate, one sampled with \<open>texture\<close> a function of the UV. The
  include \<open>varianceClipping\<close> is not part of the shader file: both overloads the shader
  calls are taken as parameters of the environment.
\<close>

record resolve_defines =
  SHADOW_LENGTH :: bool
  TEMPORAL_UPSCALING :: bool
  DEBUG_SHOW_SHADOW_LENGTH :: bool

record resolve_env =
  colorBuffer :: "ivec2 \<Rightarrow> vec4"
  depthVelocityBuffer :: "ivec2 \<Rightarrow> vec4"
  colorHistoryBuffer :: "vec2 \<Rightarrow> vec4"
  shadowLengthBuffer :: "ivec2 \<Rightarrow> vec4"
  shadowLengthHistoryBuffer :: "vec2 \<Rightarrow> vec4"
  texelSize :: vec2
  frame :: int
  varianceGamma :: real
  temporalAlpha :: real
  vUv :: vec2
  varianceClipping :: "(ivec2 \<Rightarrow> vec4) \<Rightarrow> ivec2 \<Rightarrow> vec4 \<Rightarrow> vec4 \<Rightarrow> real \<Rightarrow> vec4"
  varianceClippingDefault :: "(ivec2 \<Rightarrow> vec4) \<Rightarrow> ivec2 \<Rightarrow> vec4 \<Rightarrow> vec4 \<Rightarrow> vec4"

text \<open>
  The two \<open>out\<close> variables. \<open>outputShadowLength\<close> is written only under \<open>SHADOW_LENGTH\<close>;
  without it the variable is a local that is never assigned.
\<close>

record frag_output =
  outputColor :: vec4
  outputShadowLength :: "real option"

definition shadow_out :: "resolve_defines \<Rightarrow> real \<Rightarrow> real option" where
  "shadow_out defs v = (if SHADOW_LENGTH defs then Some v else None)"

subsection \<open>Closest fragment\<close>

definition neighborOffsets :: "ivec2 list" where
  "neighborOffsets =
     [IVec2 (-1) (-1), IVec2 (-1) 0, IVec2 (-1) 1,
      IVec2 0 (-1), IVec2 0 0, IVec2 0 1,
      IVec2 1 (-1), IVec2 1 0, IVec2 1 1]"

text \<open>\<open>texelFetchOffset(buffer, coord, 0, offset)\<close> reads the texel at \<open>coord + offset\<close>.\<close>

definition texelFetchOffset :: "(ivec2 \<Rightarrow> vec4) \<Rightarrow> ivec2 \<Rightarrow> ivec2 \<Rightarrow> vec4" where
  "texelFetchOffset buffer coord off = buffer (ivec2_add coord off)"

text \<open>One iteration of the unrolled loop of \<open>getClosestFragment\<close>, and the loop over the nine offsets.\<close>

definition closest_step :: "resolve_env \<Rightarrow> ivec2 \<Rightarrow> ivec2 \<Rightarrow> vec4 \<Rightarrow> vec4" where
  "closest_step env coord off result =
     (let neighbor = texelFetchOffset (depthVelocityBuffer env) coord off
      in if r4 neighbor < r4 result then neighbor else result)"

definition getClosestFragment :: "resolve_env \<Rightarrow> ivec2 \<Rightarrow> vec4" where
  "getClosestFragment env coord =
     fold (closest_step env coord) neighborOffsets (Vec4 10000000 0 0 0)"

subsection \<open>The Bayer matrix\<close>

definition bayerIndices :: mat4 where
  "bayerIndices =
     Mat4 (Vec4 0 12 3 15)
          (Vec4 8 4 11 7)
          (Vec4 2 14 1 13)
          (Vec4 10 6 9 5)"

text \<open>
  \<open>int(bayerIndices[coord.x % 4][coord.y % 4])\<close> and the test \<open>bayerValue == frame % 16\<close>
  of \<open>main\<close>.
\<close>

definition bayerValue :: "ivec2 \<Rightarrow> int option" where
  "bayerValue coord =
     Option.bind (glsl_imod (ix coord) 4) (\<lambda>i.
     Option.bind (glsl_imod (iy coord) 4) (\<lambda>j.
     map_option float_to_int (mat4_index bayerIndices i j)))"

definition isCurrentFrame :: "ivec2 \<Rightarrow> int \<Rightarrow> bool option" where
  "isCurrentFrame coord fr =
     Option.bind (bayerValue coord) (\<lambda>v.
     map_option (\<lambda>m. v = m) (glsl_imod fr 16))"

text \<open>
  The sixteen entries \<open>int(bayerIndices[i][j])\<close>, for \<open>i\<close> and \<open>j\<close> in 0..3, in the order of
  the indices.
\<close>

definition bayerEntries :: "int option list" where
  "bayerEntries =
     map (\<lambda>(i, j). map_option float_to_int (mat4_index bayerIndices i j))
       (List.product [0, 1, 2, 3] [0, 1, 2, 3])"

subsection \<open>Reprojection\<close>

text \<open>
  Both temporal functions compute the previous UV the same way:
  \<open>velocity = getClosestFragment(c).gb * texelSize; prevUv = vUv - velocity\<close>, and reject the
  history when \<open>prevUv\<close> leaves the unit square.
\<close>

definition prevUv :: "resolve_env \<Rightarrow> ivec2 \<Rightarrow> vec2" where
  "prevUv env c =
     (let depthVelocity = getClosestFragment env c;
          velocity = vec2_mul (gb depthVelocity) (texelSize env)
      in vec2_sub (vUv env) velocity)"

definition rejected :: "vec2 \<Rightarrow> bool" where
  "rejected uv \<longleftrightarrow> x2 uv < 0 \<or> x2 uv > 1 \<or> y2 uv < 0 \<or> y2 uv > 1"

subsection \<open>Temporal upscaling and antialiasing\<close>

definition temporalUpscale ::
  "resolve_defines \<Rightarrow> resolve_env \<Rightarrow> ivec2 \<Rightarrow> ivec2 \<Rightarrow> bool \<Rightarrow> frag_output" where
  "temporalUpscale defs env coord subCoord currentFrame =
     (let currentColor = colorBuffer env subCoord;
          currentShadowLength = rgb_one (shadowLengthBuffer env subCoord)
      in if currentFrame then
           \<lparr>outputColor = currentColor,
            outputShadowLength = shadow_out defs (r4 currentShadowLength)\<rparr>
         else
           let uv = prevUv env subCoord
           in if rejected uv then
                \<lparr>outputColor = currentColor,
                 outputShadowLength = shadow_out defs (r4 currentShadowLength)\<rparr>
              else
                let historyColor = colorHistoryBuffer env uv;
                    clippedColor = varianceClipping env (colorBuffer env) subCoord
                      currentColor historyColor (varianceGamma env);
                    historyShadowLength = rgb_one (shadowLengthHistoryBuffer env uv);
                    clippedShadowLength = varianceClipping env (shadowLengthBuffer env) subCoord
                      currentShadowLength historyShadowLength (varianceGamma env)
                in \<lparr>outputColor = clippedColor,
                    outputShadowLength = shadow_out defs (r4 clippedShadowLength)\<rparr>)"

definition temporalAntialias :: "resolve_defines \<Rightarrow> resolve_env \<Rightarrow> ivec2 \<Rightarrow> frag_output" where
  "temporalAntialias defs env coord =
     (let currentColor = colorBuffer env coord;
          currentShadowLength = rgb_one (shadowLengthBuffer env coord);
          uv = prevUv env coord
      in if rejected uv then
           \<lparr>outputColor = currentColor,
            outputShadowLength = shadow_out defs (r4 currentShadowLength)\<rparr>
         else
           let historyColor = colorHistoryBuffer env uv;
               clippedColor = varianceClippingDefault env (colorBuffer env) coord
                 currentColor historyColor;
               historyShadowLength = rgb_one (shadowLengthHistoryBuffer env uv);
               clippedShadowLength = varianceClippingDefault env (shadowLengthBuffer env) coord
                 currentShadowLength historyShadowLength
           in \<lparr>outputColor = mix4 clippedColor currentColor (temporalAlpha env),
               outputShadowLength = shadow_out defs
                 (mix (r4 clippedShadowLength) (r4 currentShadowLength) (temporalAlpha env))\<rparr>)"

subsection \<open>The entry point\<close>

text \<open>
  \<open>main\<close> takes \<open>gl_FragCoord.xy\<close>. Under \<open>TEMPORAL_UPSCALING\<close> it divides the coordinate by
  four and tests the Bayer matrix; where GLSL leaves one of these integer operations
  undefined the model returns \<open>None\<close>. The debug override of the last three lines replaces the
  colour by the shadow length.
\<close>

definition debug_override :: "resolve_defines \<Rightarrow> frag_output \<Rightarrow> frag_output" where
  "debug_override defs out =
     (if SHADOW_LENGTH defs \<and> DEBUG_SHOW_SHADOW_LENGTH defs then
        (case outputShadowLength out of
           Some s \<Rightarrow> out\<lparr>outputColor := Vec4 (s * 0.05) (s * 0.05) (s * 0.05) 1\<rparr>
         | None \<Rightarrow> out)
      else out)"

definition main :: "resolve_defines \<Rightarrow> resolve_env \<Rightarrow> vec2 \<Rightarrow> frag_output option" where
  "main defs env fragCoord =
     (let coord = IVec2 (float_to_int (x2 fragCoord)) (float_to_int (y2 fragCoord))
      in map_option (debug_override defs)
          (if TEMPORAL_UPSCALING defs then
             Option.bind (glsl_idiv (ix coord) 4) (\<lambda>sx.
             Option.bind (glsl_idiv (iy coord) 4) (\<lambda>sy.
             map_option (temporalUpscale defs env coord (IVec2 sx sy))
               (isCurrentFrame coord (frame env))))
           else Some (temporalAntialias defs env coord)))"

text \<open>The nine samples \<open>getClosestFragment\<close> reads around \<open>coord\<close>, in the order of the loop.\<close>

definition neighborSamples :: "resolve_env \<Rightarrow> ivec2 \<Rightarrow> vec4 list" where
  "neighborSamples env coord =
     map (texelFetchOffset (depthVelocityBuffer env) coord) neighborOffsets"

text \<open>
  A scene for concrete evaluation: constant buffers, a depth and velocity sample \<open>dv\<close> at every
  texel, texels of size 1/100, the fragment at \<open>uv\<close>, and a clipping function that returns the
  history sample unchanged.
\<close>

definition uniform_scene :: "vec4 \<Rightarrow> vec2 \<Rightarrow> resolve_env" where
  "uniform_scene dv uv =
     \<lparr>colorBuffer = (\<lambda>_. Vec4 1 2 3 4),
      depthVelocityBuffer = (\<lambda>_. dv),
      colorHistoryBuffer = (\<lambda>_. Vec4 9 9 9 9),
      shadowLengthBuffer = (\<lambda>_. Vec4 6 0 0 0),
      shadowLengthHistoryBuffer = (\<lambda>_. Vec4 8 0 0 0),
      texelSize = Vec2 (1 / 100) (1 / 100),
      frame = 0,
      varianceGamma = 2,
      temporalAlpha = 1 / 4,
      vUv = uv,
      varianceClipping = (\<lambda>buffer coord current history gamma. history),
      varianceClippingDefault = (\<lambda>buffer coord current history. history)\<rparr>"

text \<open>The build with the shadow-length channel and no debug view, in antialias mode.\<close>

definition shadow_defines :: resolve_defines where
  "shadow_defines =
     \<lparr>SHADOW_LENGTH = True, TEMPORAL_UPSCALING = False, DEBUG_SHOW_SHADOW_LENGTH = False\<rparr>"

section \<open>The aerial perspective shader (aerialPerspectiveEffect.frag)\<close>

subsection \<open>Vector operations\<close>

definition vec3_add :: "vec3 \<Rightarrow> vec3 \<Rightarrow> vec3" where
  "vec3_add p q = Vec3 (x3 p + x3 q) (y3 p + y3 q) (z3 p + z3 q)"

definition vec3_sub :: "vec3 \<Rightarrow> vec3 \<Rightarrow> vec3" where
  "vec3_sub p q = Vec3 (x3 p - x3 q) (y3 p - y3 q) (z3 p - z3 q)"

definition vec3_mul :: "vec3 \<Rightarrow> vec3 \<Rightarrow> vec3" where
  "vec3_mul p q = Vec3 (x3 p * x3 q) (y3 p * y3 q) (z3 p * z3 q)"

definition vec3_scale :: "real \<Rightarrow> vec3 \<Rightarrow> vec3" where
  "vec3_scale k p = Vec3 (k * x3 p) (k * y3 p) (k * z3 p)"

definition vec3_mul_scalar :: "vec3 \<Rightarrow> real \<Rightarrow> vec3" where
  "vec3_mul_scalar p k = Vec3 (x3 p * k) (y3 p * k) (z3 p * k)"

text \<open>\<open>s / v\<close> and \<open>v - s\<close> with a scalar \<open>s\<close> act on each component.\<close>

definition scalar_div_vec3 :: "real \<Rightarrow> vec3 \<Rightarrow> vec3" where
  "scalar_div_vec3 k p = Vec3 (k / x3 p) (k / y3 p) (k / z3 p)"

definition vec3_sub_scalar :: "vec3 \<Rightarrow> real \<Rightarrow> vec3" where
  "vec3_sub_scalar p k = Vec3 (x3 p - k) (y3 p - k) (z3 p - k)"

definition length3 :: "vec3 \<Rightarrow> real" where
  "length3 p = sqrt (x3 p * x3 p + y3 p * y3 p + z3 p * z3 p)"

text \<open>
  GLSL \<open>normalize(v) = v / length(v)\<close>; it is undefined on the zero vector, where the model
  takes HOL's \<open>0 / 0 = 0\<close>.
\<close>

definition normalize3 :: "vec3 \<Rightarrow> vec3" where
  "normalize3 p = Vec3 (x3 p / length3 p) (y3 p / length3 p) (z3 p / length3 p)"

definition cross :: "vec3 \<Rightarrow> vec3 \<Rightarrow> vec3" where
  "cross p q =
     Vec3 (y3 p * z3 q - z3 p * y3 q) (z3 p * x3 q - x3 p * z3 q) (x3 p * y3 q - y3 p * x3 q)"

definition xy :: "vec4 \<Rightarrow> vec2" where
  "xy v = Vec2 (r4 v) (g4 v)"

definition xyz :: "vec4 \<Rightarrow> vec3" where
  "xyz v = Vec3 (r4 v) (g4 v) (b4 v)"

text \<open>\<open>m * v\<close> for a \<open>mat4\<close> and a \<open>vec4\<close>, and \<open>mat3(m) * v\<close> for the upper-left 3x3 block.\<close>

definition mat4_mul_vec4 :: "mat4 \<Rightarrow> vec4 \<Rightarrow> vec4" where
  "mat4_mul_vec4 m v =
     Vec4 (r4 (col0 m) * r4 v + r4 (col1 m) * g4 v + r4 (col2 m) * b4 v + r4 (col3 m) * a4 v)
          (g4 (col0 m) * r4 v + g4 (col1 m) * g4 v + g4 (col2 m) * b4 v + g4 (col3 m) * a4 v)
          (b4 (col0 m) * r4 v + b4 (col1 m) * g4 v + b4 (col2 m) * b4 v + b4 (col3 m) * a4 v)
          (a4 (col0 m) * r4 v + a4 (col1 m) * g4 v + a4 (col2 m) * b4 v + a4 (col3 m) * a4 v)"

definition mat3_mul_vec3 :: "mat4 \<Rightarrow> vec3 \<Rightarrow> vec3" where
  "mat3_mul_vec3 m v =
     Vec3 (r4 (col0 m) * x3 v + r4 (col1 m) * y3 v + r4 (col2 m) * z3 v)
          (g4 (col0 m) * x3 v + g4 (col1 m) * y3 v + g4 (col2 m) * z3 v)
          (b4 (col0 m) * x3 v + b4 (col1 m) * y3 v + b4 (col2 m) * z3 v)"

subsection \<open>Float rounding\<close>

text \<open>
  Round to nearest, ties to even, as IEEE 754 defines it for binary32: a number other than zero
  is scaled by its unit in the last place, so that the scaled value has 24 binary digits
  before the point, rounded to an integer, and scaled back. The exponent range is not
  bounded: overflow and subnormal numbers are outside the model.
\<close>

definition round_even :: "real \<Rightarrow> int" where
  "round_even q =
     (let f = \<lfloor>q\<rfloor>
      in if q - of_int f < 1 / 2 then f
         else if 1 / 2 < q - of_int f then f + 1
         else if even f then f else f + 1)"

definition exponent :: "real \<Rightarrow> int" where
  "exponent x = \<lfloor>log 2 \<bar>x\<bar>\<rfloor>"

definition ulp :: "real \<Rightarrow> real" where
  "ulp x = 2 powr of_int (exponent x - 23)"

definition binary32 :: "real \<Rightarrow> real" where
  "binary32 x = (if x = 0 then 0 else of_int (round_even (x / ulp x)) * ulp x)"

text \<open>
  GLSL does not fix the rounding of an operation. What the ends of \<open>smoothstep\<close> need of it:
  it is monotone, exact on 0, 1 and 2, and keeps a positive number positive. Exact arithmetic
  and binary32 both are such roundings.
\<close>

definition float_rounding :: "(real \<Rightarrow> real) \<Rightarrow> bool" where
  "float_rounding rnd \<longleftrightarrow>
     (\<forall>x y. x \<le> y \<longrightarrow> rnd x \<le> rnd y) \<and> rnd 0 = 0 \<and> rnd 1 = 1 \<and> rnd 2 = 2
     \<and> (\<forall>x. 0 < x \<longrightarrow> 0 < rnd x)"

text \<open>
  The built-ins \<open>clamp\<close> and \<open>smoothstep\<close>, as GLSL defines them:
  \<open>t = clamp((x - edge0) / (edge1 - edge0), 0, 1); return t * t * (3 - 2 * t)\<close>, with the
  rounding \<open>rnd\<close> after each of the seven arithmetic operations. \<open>smoothstep_t\<close> is the variable
  \<open>t\<close>. GLSL leaves \<open>smoothstep\<close> undefined when \<open>edge0 >= edge1\<close>.
\<close>

definition clamp :: "real \<Rightarrow> real \<Rightarrow> real \<Rightarrow> real" where
  "clamp x lo hi = min (max x lo) hi"

definition smoothstep_t :: "(real \<Rightarrow> real) \<Rightarrow> real \<Rightarrow> real \<Rightarrow> real \<Rightarrow> real" where
  "smoothstep_t rnd edge0 edge1 x = clamp (rnd (rnd (x - edge0) / rnd (edge1 - edge0))) 0 1"

definition smoothstep :: "(real \<Rightarrow> real) \<Rightarrow> real \<Rightarrow> real \<Rightarrow> real \<Rightarrow> real" where
  "smoothstep rnd edge0 edge1 x =
     (let t = smoothstep_t rnd edge0 edge1 x in rnd (rnd (t * t) * rnd (3 - rnd (2 * t))))"

subsection \<open>Defines, uniforms and collaborators\<close>

record ap_defines =
  OCT_ENCODED_NORMAL :: bool
  RECONSTRUCT_NORMAL :: bool
  CORRECT_GEOMETRIC_ERROR :: bool
  SUN_IRRADIANCE :: bool
  SKY_IRRADIANCE :: bool
  TRANSMITTANCE :: bool
  INSCATTER :: bool

text \<open>
  The uniforms and varyings the file declares, then what it uses without declaring: the
  camera planes, three constants, the depth and normal helpers of the effect framework, the
  screen-space derivatives, the two lookups of the atmosphere model, and the rounding of the
  float arithmetic that \<open>smoothstep\<close> is evaluated in. The lookups return
  their value and their \<open>out\<close> parameter as a pair: \<open>GetSunAndSkyIrradiance\<close> the sun and the
  sky irradiance, \<open>GetSkyRadianceToPoint\<close> the inscatter and the transmittance.
\<close>

record ap_env =
  normalBuffer :: "vec2 \<Rightarrow> vec4"
  projectionMatrix :: mat4
  inverseProjectionMatrix :: mat4
  inverseViewMatrix :: mat4
  cameraHeight :: real
  geometricErrorAltitudeRange :: vec2
  sunDirection :: vec3
  irradianceScale :: real
  vWorldPosition :: vec3
  vEllipsoidCenter :: vec3
  vEllipsoidRadiiSquared :: vec3
  cameraNear :: real
  cameraFar :: real
  u_bottom_radius :: real
  METER_TO_UNIT_LENGTH :: real
  RECIPROCAL_PI :: real
  readDepth :: "vec2 \<Rightarrow> real"
  reverseLogDepth :: "real \<Rightarrow> real \<Rightarrow> real \<Rightarrow> real"
  getViewZ :: "real \<Rightarrow> real"
  screenToView :: "vec2 \<Rightarrow> real \<Rightarrow> real \<Rightarrow> mat4 \<Rightarrow> mat4 \<Rightarrow> vec3"
  unpackVec2ToNormal :: "vec2 \<Rightarrow> vec3"
  dFdx :: "vec3 \<Rightarrow> vec3"
  dFdy :: "vec3 \<Rightarrow> vec3"
  GetSunAndSkyIrradiance :: "vec3 \<Rightarrow> vec3 \<Rightarrow> vec3 \<Rightarrow> vec3 \<times> vec3"
  GetSkyRadianceToPoint :: "vec3 \<Rightarrow> vec3 \<Rightarrow> real \<Rightarrow> vec3 \<Rightarrow> vec3 \<times> vec3"
  float_round :: "real \<Rightarrow> real"

subsection \<open>The functions\<close>

definition readNormal :: "ap_defines \<Rightarrow> ap_env \<Rightarrow> vec2 \<Rightarrow> vec3" where
  "readNormal defs env uv =
     (if OCT_ENCODED_NORMAL defs then unpackVec2ToNormal env (xy (normalBuffer env uv))
      else vec3_sub_scalar (vec3_scale 2 (xyz (normalBuffer env uv))) 1)"

text \<open>The \<open>inout\<close> parameters \<open>worldPosition\<close> and \<open>worldNormal\<close> are returned as a pair.\<close>

definition correctGeometricError ::
  "ap_env \<Rightarrow> real \<Rightarrow> real \<Rightarrow> vec3 \<times> vec3 \<Rightarrow> vec3 \<times> vec3" where
  "correctGeometricError env minHeight maxHeight pn =
     (case pn of (worldPosition, worldNormal) \<Rightarrow>
        let normal = normalize3
              (vec3_mul (scalar_div_vec3 1 (vEllipsoidRadiiSquared env)) worldPosition);
            position = vec3_scale (u_bottom_radius env) normal;
            t = smoothstep (float_round env) minHeight maxHeight (cameraHeight env)
        in (mix3 worldPosition position t, mix3 worldNormal normal t))"

text \<open>
  Where GLSL defines the ellipsoid normal of \<open>correctGeometricError\<close> at a position: no squared
  radius is zero, and the vector to normalise is not the zero vector.
\<close>

definition normal_defined :: "ap_env \<Rightarrow> vec3 \<Rightarrow> bool" where
  "normal_defined env worldPosition \<longleftrightarrow>
     x3 (vEllipsoidRadiiSquared env) \<noteq> 0 \<and> y3 (vEllipsoidRadiiSquared env) \<noteq> 0
     \<and> z3 (vEllipsoidRadiiSquared env) \<noteq> 0
     \<and> 0 < length3 (vec3_mul (scalar_div_vec3 1 (vEllipsoidRadiiSquared env)) worldPosition)"

text \<open>
  \<open>getSunSkyIrradiance\<close> is compiled only when one of the two irradiance symbols is defined;
  the last branch is then \<open>SKY_IRRADIANCE\<close> alone.
\<close>

definition getSunSkyIrradiance :: "ap_defines \<Rightarrow> ap_env \<Rightarrow> vec3 \<Rightarrow> vec3 \<Rightarrow> vec3 \<Rightarrow> vec3" where
  "getSunSkyIrradiance defs env worldPosition worldNormal inputColor =
     (let albedo = vec3_mul_scalar (vec3_mul_scalar inputColor (irradianceScale env))
            (RECIPROCAL_PI env)
      in case GetSunAndSkyIrradiance env (vec3_sub worldPosition (vEllipsoidCenter env))
              worldNormal (sunDirection env) of
           (sunIrradiance, skyIrradiance) \<Rightarrow>
             if SUN_IRRADIANCE defs \<and> SKY_IRRADIANCE defs then
               vec3_mul albedo (vec3_add sunIrradiance skyIrradiance)
             else if SUN_IRRADIANCE defs then vec3_mul albedo sunIrradiance
             else vec3_mul albedo skyIrradiance)"

definition getTransmittanceInscatter ::
  "ap_defines \<Rightarrow> ap_env \<Rightarrow> vec3 \<Rightarrow> vec3 \<Rightarrow> vec3 \<Rightarrow> vec3" where
  "getTransmittanceInscatter defs env worldPosition worldNormal radiance =
     (case GetSkyRadianceToPoint env (vec3_sub (vWorldPosition env) (vEllipsoidCenter env))
             (vec3_sub worldPosition (vEllipsoidCenter env)) 0 (sunDirection env) of
        (inscatter, transmittance) \<Rightarrow>
          let radiance1 = (if TRANSMITTANCE defs then vec3_mul radiance transmittance
                           else radiance)
          in if INSCATTER defs then vec3_add radiance1 inscatter else radiance1)"

definition mainImage :: "ap_defines \<Rightarrow> ap_env \<Rightarrow> vec4 \<Rightarrow> vec2 \<Rightarrow> vec4" where
  "mainImage defs env inputColor uv =
     (let depth = readDepth env uv
      in if depth \<ge> 1 - 1 / 10000000 then inputColor
         else
           let depth1 = reverseLogDepth env depth (cameraNear env) (cameraFar env);
               viewPosition = screenToView env uv depth1 (getViewZ env depth1)
                 (projectionMatrix env) (inverseProjectionMatrix env);
               viewNormal =
                 (if RECONSTRUCT_NORMAL defs then
                    normalize3 (cross (dFdx env viewPosition) (dFdy env viewPosition))
                  else readNormal defs env uv);
               worldPosition = vec3_mul_scalar
                 (xyz (mat4_mul_vec4 (inverseViewMatrix env)
                    (Vec4 (x3 viewPosition) (y3 viewPosition) (z3 viewPosition) 1)))
                 (METER_TO_UNIT_LENGTH env);
               worldNormal = normalize3 (mat3_mul_vec3 (inverseViewMatrix env) viewNormal)
           in case (if CORRECT_GEOMETRIC_ERROR defs then
                      correctGeometricError env
                        (x2 (geometricErrorAltitudeRange env))
                        (y2 (geometricErrorAltitudeRange env))
                        (worldPosition, worldNormal)
                    else (worldPosition, worldNormal)) of
                (worldPosition1, worldNormal1) \<Rightarrow>
                  let radiance =
                        (if SUN_IRRADIANCE defs \<or> SKY_IRRADIANCE defs then
                           getSunSkyIrradiance defs env worldPosition1 worldNormal1
                             (xyz inputColor)
                         else xyz inputColor);
                      radiance1 =
                        (if TRANSMITTANCE defs \<or> INSCATTER defs then
                           getTransmittanceInscatter defs env worldPosition1 worldNormal1 radiance
                         else radiance)
                  in Vec4 (x3 radiance1) (y3 radiance1) (z3 radiance1) (a4 inputColor))"

text \<open>
  A scene for concrete evaluation: a camera 10000 units up looking straight down at a flat
  surface, identity matrices, a depth \<open>d\<close> at every pixel, the sun overhead, an atmosphere
  of zero density (transmittance 1, no inscatter, no sky irradiance), and binary32 arithmetic.
\<close>

definition identity_mat4 :: mat4 where
  "identity_mat4 = Mat4 (Vec4 1 0 0 0) (Vec4 0 1 0 0) (Vec4 0 0 1 0) (Vec4 0 0 0 1)"

definition overhead_scene :: "real \<Rightarrow> ap_env" where
  "overhead_scene d =
     \<lparr>normalBuffer = (\<lambda>_. Vec4 (1 / 2) (1 / 2) 1 1),
      projectionMatrix = identity_mat4,
      inverseProjectionMatrix = identity_mat4,
      inverseViewMatrix = identity_mat4,
      cameraHeight = 10000,
      geometricErrorAltitudeRange = Vec2 200000 600000,
      sunDirection = Vec3 0 0 1,
      irradianceScale = 1,
      vWorldPosition = Vec3 0 0 10000,
      vEllipsoidCenter = Vec3 0 0 0,
      vEllipsoidRadiiSquared = Vec3 1 1 1,
      cameraNear = 1,
      cameraFar = 100000,
      u_bottom_radius = 6360,
      METER_TO_UNIT_LENGTH = 1 / 1000,
      RECIPROCAL_PI = 1 / 3,
      readDepth = (\<lambda>_. d),
      reverseLogDepth = (\<lambda>depth near far. depth),
      getViewZ = (\<lambda>depth. - depth),
      screenToView = (\<lambda>uv depth viewZ projection inverseProjection. Vec3 0 0 viewZ),
      unpackVec2ToNormal = (\<lambda>_. Vec3 0 0 1),
      dFdx = (\<lambda>_. Vec3 1 0 0),
      dFdy = (\<lambda>_. Vec3 0 1 0),
      GetSunAndSkyIrradiance = (\<lambda>point normal sun. (Vec3 1 1 1, Vec3 0 0 0)),
      GetSkyRadianceToPoint = (\<lambda>camera point shadow sun. (Vec3 0 0 0, Vec3 1 1 1)),
      float_round = binary32\<rparr>"

definition all_features :: ap_defines where
  "all_features =
     \<lparr>OCT_ENCODED_NORMAL = False, RECONSTRUCT_NORMAL = False, CORRECT_GEOMETRIC_ERROR = True,
      SUN_IRRADIANCE = True, SKY_IRRADIANCE = True, TRANSMITTANCE = True, INSCATTER = True\<rparr>"

section \<open>The clouds control panel (useCloudsControls)\<close>

text \<open>
  The \<open>debug\<close> folder of the panel holds seven independent checkboxes. The hook copies five of
  them into the \<open>defines\<close> of the render material and two into those of the resolve material
  (a key is set to \<open>'1'\<close> or deleted), marks both materials for recompilation, and returns the
  \<open>toneMapping\<close> flag. With no pass (\<open>pass == null\<close>) the effects return at once.
\<close>

record debug_panel =
  showSampleCount :: bool
  showFrontDepth :: bool
  showShadowMap :: bool
  showCascades :: bool
  showUv :: bool
  showShadowLength :: bool
  showVelocity :: bool

record material =
  materialDefines :: "string \<rightharpoonup> string"
  needsUpdate :: bool

record clouds_pass =
  currentMaterial :: material
  resolveMaterial :: material

definition set_define :: "bool \<Rightarrow> string \<Rightarrow> material \<Rightarrow> material" where
  "set_define flag name m =
     (if flag then m\<lparr>materialDefines := (materialDefines m)(name \<mapsto> ''1'')\<rparr>
      else m\<lparr>materialDefines := (materialDefines m)(name := None)\<rparr>)"

definition render_debug_effect :: "debug_panel \<Rightarrow> clouds_pass option \<Rightarrow> clouds_pass option" where
  "render_debug_effect panel pass =
     (case pass of
        None \<Rightarrow> None
      | Some p \<Rightarrow>
          let m1 = set_define (showSampleCount panel) ''DEBUG_SHOW_SAMPLE_COUNT'' (currentMaterial p);
              m2 = set_define (showFrontDepth panel) ''DEBUG_SHOW_FRONT_DEPTH'' m1;
              m3 = set_define (showShadowMap panel) ''DEBUG_SHOW_SHADOW_MAP'' m2;
              m4 = set_define (showCascades panel) ''DEBUG_SHOW_CASCADES'' m3;
              m5 = set_define (showUv panel) ''DEBUG_SHOW_UV'' m4
          in Some (p\<lparr>currentMaterial := m5\<lparr>needsUpdate := True\<rparr>\<rparr>))"

definition resolve_debug_effect :: "debug_panel \<Rightarrow> clouds_pass option \<Rightarrow> clouds_pass option" where
  "resolve_debug_effect panel pass =
     (case pass of
        None \<Rightarrow> None
      | Some p \<Rightarrow>
          let m1 = set_define (showShadowLength panel) ''DEBUG_SHOW_SHADOW_LENGTH''
                     (resolveMaterial p);
              m2 = set_define (showVelocity panel) ''DEBUG_SHOW_VELOCITY'' m1
          in Some (p\<lparr>resolveMaterial := m2\<lparr>needsUpdate := True\<rparr>\<rparr>))"

text \<open>The \<open>toneMapping\<close> entry of the returned parameters.\<close>

definition toneMapping :: "debug_panel \<Rightarrow> bool" where
  "toneMapping panel \<longleftrightarrow>
     \<not> showSampleCount panel \<and> \<not> showFrontDepth panel \<and> \<not> showUv panel
     \<and> \<not> showShadowMap panel \<and> \<not> showShadowLength panel"

text \<open>
  The debug views a pass has switched on: the names among the seven that are keys of the
  defines of their material.
\<close>

definition active_debug_views :: "clouds_pass \<Rightarrow> string list" where
  "active_debug_views p =
     filter (\<lambda>name. materialDefines (currentMaterial p) name \<noteq> None)
       [''DEBUG_SHOW_SAMPLE_COUNT'', ''DEBUG_SHOW_FRONT_DEPTH'', ''DEBUG_SHOW_SHADOW_MAP'',
        ''DEBUG_SHOW_CASCADES'', ''DEBUG_SHOW_UV'']
     @ filter (\<lambda>name. materialDefines (resolveMaterial p) name \<noteq> None)
       [''DEBUG_SHOW_SHADOW_LENGTH'', ''DEBUG_SHOW_VELOCITY'']"

text \<open>A pass whose materials have no defines yet, and a panel with every box unchecked.\<close>

definition fresh_pass :: clouds_pass where
  "fresh_pass =
     \<lparr>currentMaterial = \<lparr>materialDefines = Map.empty, needsUpdate = False\<rparr>,
      resolveMaterial = \<lparr>materialDefines = Map.empty, needsUpdate = False\<rparr>\<rparr>"

definition no_debug :: debug_panel where
  "no_debug =
     \<lparr>showSampleCount = False, showFrontDepth = False, showShadowMap = False,
      showCascades = False, showUv = False, showShadowLength = False, showVelocity = False\<rparr>"

section \<open>Variance clipping\<close>

definition vec4_add :: "vec4 \<Rightarrow> vec4 \<Rightarrow> vec4" where
  "vec4_add p q = Vec4 (r4 p + r4 q) (g4 p + g4 q) (b4 p + b4 q) (a4 p + a4 q)"

definition vec4_sub :: "vec4 \<Rightarrow> vec4 \<Rightarrow> vec4" where
  "vec4_sub p q = Vec4 (r4 p - r4 q) (g4 p - g4 q) (b4 p - b4 q) (a4 p - a4 q)"

definition vec4_mul :: "vec4 \<Rightarrow> vec4 \<Rightarrow> vec4" where
  "vec4_mul p q = Vec4 (r4 p * r4 q) (g4 p * g4 q) (b4 p * b4 q) (a4 p * a4 q)"

definition vec4_scale :: "real \<Rightarrow> vec4 \<Rightarrow> vec4" where
  "vec4_scale k p = Vec4 (k * r4 p) (k * g4 p) (k * b4 p) (k * a4 p)"

text \<open>The four channels of a \<open>vec4\<close>, as selectors.\<close>

definition channels :: "(vec4 \<Rightarrow> real) list" where
  "channels = [r4, g4, b4, a4]"

text \<open>
  Modelled from the spec: the include \<open>varianceClipping\<close> that cloudsResolve.frag calls is not
  among the sources. The local window of the current-frame sample is the 3x3 block of texels
  around the coordinate in the current buffer.
\<close>

definition window3x3 :: "(ivec2 \<Rightarrow> vec4) \<Rightarrow> ivec2 \<Rightarrow> vec4 list" where
  "window3x3 buffer coord = map (texelFetchOffset buffer coord) neighborOffsets"

text \<open>
  Modelled from the spec: the mean of the window (missing with the include), per channel.
\<close>

definition mean4 :: "vec4 list \<Rightarrow> vec4" where
  "mean4 ws = vec4_scale (1 / real (length ws)) (foldr vec4_add ws (Vec4 0 0 0 0))"

text \<open>
  Modelled from the spec: the variance of the window (missing with the include), per channel:
  the mean of the squares minus the square of the mean.
\<close>

definition variance4 :: "vec4 list \<Rightarrow> vec4" where
  "variance4 ws =
     vec4_sub (mean4 (map (\<lambda>s. vec4_mul s s) ws)) (vec4_mul (mean4 ws) (mean4 ws))"

text \<open>
  Modelled from the spec: clamping the history sample into the box of half-width
  \<open>extent\<close> around \<open>centre\<close> along the line from the centre to the sample (missing with the
  include). \<open>clip_scale e d\<close> is the largest fraction of the offset \<open>d\<close> that stays within \<open>e\<close> in
  one channel, and the sample moves by the least of the four fractions.
\<close>

definition clip_scale :: "real \<Rightarrow> real \<Rightarrow> real" where
  "clip_scale e d = (if \<bar>d\<bar> \<le> e then 1 else e / \<bar>d\<bar>)"

definition clip_to_box :: "vec4 \<Rightarrow> vec4 \<Rightarrow> vec4 \<Rightarrow> vec4" where
  "clip_to_box centre extent history =
     (let d = vec4_sub history centre;
          s = min (min (clip_scale (r4 extent) (r4 d)) (clip_scale (g4 extent) (g4 d)))
                  (min (clip_scale (b4 extent) (b4 d)) (clip_scale (a4 extent) (a4 d)))
      in vec4_add centre (vec4_scale s d))"

text \<open>
  Modelled from the spec: \<open>varianceClipping(buffer, coord, current, history, gamma)\<close>, missing
  with the include: the mean and the variance of the window of the current sample, a box of
  half-width variance times gamma around the mean, and the history sample clamped into it.
  The current sample is the centre texel of the window.
\<close>

definition varianceClipping_spec ::
  "(ivec2 \<Rightarrow> vec4) \<Rightarrow> ivec2 \<Rightarrow> vec4 \<Rightarrow> vec4 \<Rightarrow> real \<Rightarrow> vec4" where
  "varianceClipping_spec buffer coord current history gamma =
     (let ws = window3x3 buffer coord;
          centre = mean4 ws;
          extent = vec4_scale gamma (variance4 ws)
      in clip_to_box centre extent history)"

text \<open>A buffer whose red channel is the column index of the texel, for concrete evaluation.\<close>

definition ramp_buffer :: "ivec2 \<Rightarrow> vec4" where
  "ramp_buffer c = Vec4 (real_of_int (ix c)) 0 0 0"

section \<open>Checkerboard coverage\<close>

lemma bayer_cases:
  "i \<in> {0, 1, 2, 3} \<Longrightarrow> j \<in> {0, 1, 2, 3} \<Longrightarrow>
   \<exists>v. map_option float_to_int (mat4_index bayerIndices i j) = Some v \<and> 0 \<le> v \<and> v < 16"
  by (elim insertE emptyE; simp add: mat4_index_def mat4_column_def
        vec4_component_def bayerIndices_def float_to_int_def)

lemma mod4_cases: "(n::int) mod 4 \<in> {0, 1, 2, 3}"
proof -
  have "0 \<le> n mod 4" "n mod 4 < 4" by simp_all
  then show ?thesis by auto
qed

lemma bayerValue_range:
  assumes "0 \<le> ix c" and "0 \<le> iy c"
  shows "\<exists>v. bayerValue c = Some v \<and> 0 \<le> v \<and> v < 16"
  using bayer_cases [OF mod4_cases mod4_cases, of "ix c" "iy c"] assms
  by (simp add: bayerValue_def glsl_imod_def)

lemma one_frame_in_sixteen:
  fixes f v :: int
  assumes "0 \<le> v" and "v < 16"
  shows "{k \<in> {f..<f + 16}. k mod 16 = v} = {f + (v - f) mod 16}"
proof -
  let ?k0 = "f + (v - f) mod 16"
  have v: "v mod 16 = v" using assms by simp
  have r: "0 \<le> (v - f) mod 16" "(v - f) mod 16 < 16" by simp_all
  have "?k0 mod 16 = (f + (v - f)) mod 16" by (simp add: mod_add_right_eq)
  then have k0: "?k0 mod 16 = v" using v by simp
  have uniq: "k = ?k0" if "f \<le> k" "k < f + 16" "k mod 16 = v" for k
  proof -
    have "(k - f) mod 16 = (k mod 16 - f) mod 16" by (simp add: mod_diff_left_eq)
    also have "\<dots> = (v - f) mod 16" using that by simp
    finally have "(k - f) mod 16 = (v - f) mod 16" .
    moreover have "(k - f) mod 16 = k - f" using that by simp
    ultimately show ?thesis by simp
  qed
  show ?thesis
  proof (rule set_eqI)
    fix k
    show "k \<in> {k \<in> {f..<f + 16}. k mod 16 = v} \<longleftrightarrow> k \<in> {?k0}"
      using uniq [of k] k0 r by auto
  qed
qed

lemma bayerEntries_eval:
  "bayerEntries = map Some [0, 12, 3, 15, 8, 4, 11, 7, 2, 14, 1, 13, 10, 6, 9, 5]"
  by (simp add: bayerEntries_def mat4_index_def mat4_column_def
        vec4_component_def bayerIndices_def float_to_int_def)

lemma priorities: "{0..15::int} = {0, 1, 2, 3, 4, 5, 6, 7, 8, 9, 10, 11, 12, 13, 14, 15}"
proof (rule set_eqI)
  fix p :: int
  show "p \<in> {0..15} \<longleftrightarrow> p \<in> {0, 1, 2, 3, 4, 5, 6, 7, 8, 9, 10, 11, 12, 13, 14, 15}"
    unfolding atLeastAtMost_iff insert_iff empty_iff by arith
qed

text \<open>
  Claim C1. For a pixel with non-negative coordinates and sixteen consecutive non-negative
  frame indices \<open>f, \<dots>, f + 15\<close>, the test \<open>bayerValue == frame % 16\<close> of \<open>main\<close> has a value
  at each of them and is true at exactly one. Equivalently, the sixteen entries of the Bayer
  matrix are pairwise different and are the priorities 0 to 15.
\<close>

theorem checkerboard_coverage:
  assumes "0 \<le> ix c" and "0 \<le> iy c" and "0 \<le> f"
  shows "(\<forall>k\<in>{f..<f + 16}. isCurrentFrame c k \<noteq> None)
       \<and> card {k \<in> {f..<f + 16}. isCurrentFrame c k = Some True} = 1
       \<and> distinct bayerEntries \<and> set bayerEntries = Some ` {0..15}"
proof -
  from bayerValue_range [OF assms(1,2)]
  obtain v where v: "bayerValue c = Some v" "0 \<le> v" "v < 16" by blast
  have cur: "isCurrentFrame c k = Some (v = k mod 16)" if "f \<le> k" for k
    using that assms(3) v(1) by (simp add: isCurrentFrame_def glsl_imod_def)
  have "{k \<in> {f..<f + 16}. isCurrentFrame c k = Some True}
      = {k \<in> {f..<f + 16}. k mod 16 = v}"
    using cur by auto
  then have one: "card {k \<in> {f..<f + 16}. isCurrentFrame c k = Some True} = 1"
    by (simp only: one_frame_in_sixteen [OF v(2,3)] card.empty card_insert_disjoint
        finite.emptyI empty_iff not_False_eq_True One_nat_def)
  have def: "\<forall>k\<in>{f..<f + 16}. isCurrentFrame c k \<noteq> None"
    using cur by simp
  have perm: "distinct bayerEntries \<and> set bayerEntries = Some ` {0..15}"
    unfolding bayerEntries_eval priorities by auto
  from def one perm show ?thesis by blast
qed

theorem checkerboard_coverage_witness:
  "card {k \<in> {35..<35 + 16}. isCurrentFrame (IVec2 5 2) k = Some True} = 1
   \<and> isCurrentFrame (IVec2 5 2) 43 = Some True"
proof -
  have "card {k \<in> {35..<35 + 16}. isCurrentFrame (IVec2 5 2) k = Some True} = 1"
    using checkerboard_coverage [of "IVec2 5 2" 35] by simp
  moreover have "isCurrentFrame (IVec2 5 2) 43 = Some True"
    by (simp add: isCurrentFrame_def bayerValue_def glsl_imod_def mat4_index_def
        mat4_column_def vec4_component_def bayerIndices_def float_to_int_def)
  ultimately show ?thesis by simp
qed

section \<open>Reprojection and history rejection\<close>

lemma closest_step_cong:
  "depthVelocityBuffer env' = depthVelocityBuffer env \<Longrightarrow> closest_step env' = closest_step env"
  by (intro ext) (simp add: closest_step_def)

lemma prevUv_cong:
  assumes "depthVelocityBuffer env' = depthVelocityBuffer env"
    and "texelSize env' = texelSize env" and "vUv env' = vUv env"
  shows "prevUv env' c = prevUv env c"
  using assms by (simp add: prevUv_def getClosestFragment_def closest_step_cong [OF assms(1)])

lemma prevUv_history:
  "prevUv (env\<lparr>colorHistoryBuffer := h, shadowLengthHistoryBuffer := hs\<rparr>) c = prevUv env c"
  by (rule prevUv_cong) simp_all

lemma prevUv_alpha: "prevUv (env\<lparr>temporalAlpha := w\<rparr>) c = prevUv env c"
  by (rule prevUv_cong) simp_all

lemma fold_closest:
  "(fold (closest_step env c) offs r0 = r0 \<or>
      fold (closest_step env c) offs r0 \<in> texelFetchOffset (depthVelocityBuffer env) c ` set offs)
   \<and> r4 (fold (closest_step env c) offs r0) \<le> r4 r0
   \<and> (\<forall>off\<in>set offs. r4 (fold (closest_step env c) offs r0)
          \<le> r4 (texelFetchOffset (depthVelocityBuffer env) c off))
   \<and> ((\<forall>off\<in>set offs. r4 r0 \<le> r4 (texelFetchOffset (depthVelocityBuffer env) c off))
          \<longrightarrow> fold (closest_step env c) offs r0 = r0)"
proof (induction offs arbitrary: r0)
  case Nil
  show ?case by simp
next
  case (Cons off offs)
  let ?n = "texelFetchOffset (depthVelocityBuffer env) c off"
  let ?r1 = "closest_step env c off r0"
  have r1: "?r1 = (if r4 ?n < r4 r0 then ?n else r0)"
    by (simp add: closest_step_def)
  have le0: "r4 ?r1 \<le> r4 r0" and len: "r4 ?r1 \<le> r4 ?n"
    by (simp_all add: r1)
  note ih = Cons.IH [of ?r1]
  have a: "fold (closest_step env c) (off # offs) r0 = fold (closest_step env c) offs ?r1"
    by simp
  show ?case unfolding a
  proof (intro conjI)
    show "fold (closest_step env c) offs ?r1 = r0 \<or>
        fold (closest_step env c) offs ?r1
          \<in> texelFetchOffset (depthVelocityBuffer env) c ` set (off # offs)"
      using ih r1 by (auto split: if_splits)
    show "r4 (fold (closest_step env c) offs ?r1) \<le> r4 r0"
      using ih le0 by linarith
    show "\<forall>o'\<in>set (off # offs). r4 (fold (closest_step env c) offs ?r1)
        \<le> r4 (texelFetchOffset (depthVelocityBuffer env) c o')"
      using ih len by auto
    show "(\<forall>o'\<in>set (off # offs). r4 r0 \<le> r4 (texelFetchOffset (depthVelocityBuffer env) c o'))
        \<longrightarrow> fold (closest_step env c) offs ?r1 = r0"
      using ih r1 by (auto split: if_splits)
  qed
qed

lemma uniform_scene_closest:
  "getClosestFragment (uniform_scene dv uv) c = (if r4 dv < 10000000 then dv else Vec4 10000000 0 0 0)"
  by (simp add: getClosestFragment_def closest_step_def neighborOffsets_def
      texelFetchOffset_def uniform_scene_def)

lemma uniform_scene_prevUv:
  "prevUv (uniform_scene dv uv) c =
     (if r4 dv < 10000000 then Vec2 (x2 uv - g4 dv / 100) (y2 uv - b4 dv / 100) else uv)"
  by (simp add: prevUv_def uniform_scene_closest gb_def vec2_mul_def vec2_sub_def)
    (simp add: uniform_scene_def)

text \<open>
  Claim C2. In both temporal functions, when a coordinate of the reprojected UV is strictly
  outside [0, 1] the output is the current sample (colour and shadow length) and does not
  depend on the history buffers. A reprojected UV with x exactly 0 and y in [0, 1] is
  accepted: the antialias output is the blend of the clipped history with the current sample,
  and the upscale output of a pixel that is not current is the clipped history. A reprojected
  UV with x = -1e-4 is rejected.
\<close>

theorem disocclusion_rejection:
  "(x2 (prevUv env c) \<notin> {0..1} \<or> y2 (prevUv env c) \<notin> {0..1} \<longrightarrow>
      temporalAntialias defs env c =
        \<lparr>outputColor = colorBuffer env c,
         outputShadowLength = shadow_out defs (r4 (shadowLengthBuffer env c))\<rparr>
    \<and> temporalUpscale defs env coord c cur =
        \<lparr>outputColor = colorBuffer env c,
         outputShadowLength = shadow_out defs (r4 (shadowLengthBuffer env c))\<rparr>
    \<and> (\<forall>h hs.
          temporalAntialias defs
            (env\<lparr>colorHistoryBuffer := h, shadowLengthHistoryBuffer := hs\<rparr>) c
            = temporalAntialias defs env c
        \<and> temporalUpscale defs
            (env\<lparr>colorHistoryBuffer := h, shadowLengthHistoryBuffer := hs\<rparr>) coord c cur
            = temporalUpscale defs env coord c cur))
   \<and> (x2 (prevUv env c) = 0 \<and> y2 (prevUv env c) \<in> {0..1} \<longrightarrow>
      outputColor (temporalAntialias defs env c) =
        mix4 (varianceClippingDefault env (colorBuffer env) c (colorBuffer env c)
               (colorHistoryBuffer env (prevUv env c)))
          (colorBuffer env c) (temporalAlpha env)
    \<and> (\<not> cur \<longrightarrow>
        outputColor (temporalUpscale defs env coord c cur) =
          varianceClipping env (colorBuffer env) c (colorBuffer env c)
            (colorHistoryBuffer env (prevUv env c)) (varianceGamma env)))
   \<and> (x2 (prevUv env c) = - (1 / 10000) \<longrightarrow>
      outputColor (temporalAntialias defs env c) = colorBuffer env c
    \<and> outputColor (temporalUpscale defs env coord c cur) = colorBuffer env c)"
proof (intro conjI impI)
  assume out: "x2 (prevUv env c) \<notin> {0..1} \<or> y2 (prevUv env c) \<notin> {0..1}"
  then have rej: "rejected (prevUv env c)"
    by (auto simp: rejected_def)
  show "temporalAntialias defs env c =
      \<lparr>outputColor = colorBuffer env c,
       outputShadowLength = shadow_out defs (r4 (shadowLengthBuffer env c))\<rparr>"
    using rej by (simp add: temporalAntialias_def Let_def rgb_one_def)
  show "temporalUpscale defs env coord c cur =
      \<lparr>outputColor = colorBuffer env c,
       outputShadowLength = shadow_out defs (r4 (shadowLengthBuffer env c))\<rparr>"
    using rej by (simp add: temporalUpscale_def Let_def rgb_one_def)
  show "\<forall>h hs.
      temporalAntialias defs
        (env\<lparr>colorHistoryBuffer := h, shadowLengthHistoryBuffer := hs\<rparr>) c
        = temporalAntialias defs env c
      \<and> temporalUpscale defs
        (env\<lparr>colorHistoryBuffer := h, shadowLengthHistoryBuffer := hs\<rparr>) coord c cur
        = temporalUpscale defs env coord c cur"
    using rej by (simp add: temporalAntialias_def temporalUpscale_def Let_def prevUv_history)
next
  assume acc: "x2 (prevUv env c) = 0 \<and> y2 (prevUv env c) \<in> {0..1}"
  then have nrej: "\<not> rejected (prevUv env c)"
    by (simp add: rejected_def)
  show "outputColor (temporalAntialias defs env c) =
      mix4 (varianceClippingDefault env (colorBuffer env) c (colorBuffer env c)
             (colorHistoryBuffer env (prevUv env c)))
        (colorBuffer env c) (temporalAlpha env)"
    using nrej by (simp add: temporalAntialias_def Let_def)
  show "outputColor (temporalUpscale defs env coord c cur) =
      varianceClipping env (colorBuffer env) c (colorBuffer env c)
        (colorHistoryBuffer env (prevUv env c)) (varianceGamma env)" if "\<not> cur"
    using nrej that by (simp add: temporalUpscale_def Let_def)
next
  assume neg: "x2 (prevUv env c) = - (1 / 10000)"
  then have rej: "rejected (prevUv env c)"
    by (simp add: rejected_def)
  show "outputColor (temporalAntialias defs env c) = colorBuffer env c"
    using rej by (simp add: temporalAntialias_def Let_def)
  show "outputColor (temporalUpscale defs env coord c cur) = colorBuffer env c"
    using rej by (simp add: temporalUpscale_def Let_def)
qed

theorem disocclusion_rejection_witness:
  "prevUv (uniform_scene (Vec4 5 1 0 0) (Vec2 (99 / 10000) (1 / 2))) (IVec2 3 3)
     = Vec2 (- (1 / 10000)) (1 / 2)
   \<and> outputColor (temporalAntialias shadow_defines
        (uniform_scene (Vec4 5 1 0 0) (Vec2 (99 / 10000) (1 / 2))) (IVec2 3 3)) = Vec4 1 2 3 4
   \<and> outputColor (temporalUpscale shadow_defines
        (uniform_scene (Vec4 5 1 0 0) (Vec2 (99 / 10000) (1 / 2))) (IVec2 13 14) (IVec2 3 3) False)
       = Vec4 1 2 3 4
   \<and> prevUv (uniform_scene (Vec4 5 1 0 0) (Vec2 (1 / 100) (1 / 2))) (IVec2 3 3) = Vec2 0 (1 / 2)
   \<and> outputColor (temporalAntialias shadow_defines
        (uniform_scene (Vec4 5 1 0 0) (Vec2 (1 / 100) (1 / 2))) (IVec2 3 3))
       = Vec4 7 (29 / 4) (15 / 2) (31 / 4)
   \<and> outputColor (temporalUpscale shadow_defines
        (uniform_scene (Vec4 5 1 0 0) (Vec2 (1 / 100) (1 / 2))) (IVec2 13 14) (IVec2 3 3) False)
       = Vec4 9 9 9 9"
proof -
  let ?rej = "uniform_scene (Vec4 5 1 0 0) (Vec2 (99 / 10000) (1 / 2))"
  let ?acc = "uniform_scene (Vec4 5 1 0 0) (Vec2 (1 / 100) (1 / 2))"
  have r: "prevUv ?rej (IVec2 3 3) = Vec2 (- (1 / 10000)) (1 / 2)"
    by (simp add: uniform_scene_prevUv)
  have a: "prevUv ?acc (IVec2 3 3) = Vec2 0 (1 / 2)"
    by (simp add: uniform_scene_prevUv)
  have "outputColor (temporalAntialias shadow_defines ?rej (IVec2 3 3)) = Vec4 1 2 3 4
      \<and> outputColor (temporalUpscale shadow_defines ?rej (IVec2 13 14) (IVec2 3 3) False) = Vec4 1 2 3 4"
    using disocclusion_rejection [of ?rej "IVec2 3 3" shadow_defines "IVec2 13 14" False]
    by (simp add: r) (simp add: uniform_scene_def)
  moreover have "outputColor (temporalAntialias shadow_defines ?acc (IVec2 3 3))
        = Vec4 7 (29 / 4) (15 / 2) (31 / 4)
      \<and> outputColor (temporalUpscale shadow_defines ?acc (IVec2 13 14) (IVec2 3 3) False) = Vec4 9 9 9 9"
    using disocclusion_rejection [of ?acc "IVec2 3 3" shadow_defines "IVec2 13 14" False]
    by (simp add: a) (simp add: uniform_scene_def mix4_def mix_def)
  ultimately show ?thesis using r a by simp
qed

section \<open>Upscaling\<close>

text \<open>
  Claim C3. In \<open>temporalUpscale\<close>, a pixel that is current outputs the current sample, whatever
  the history buffers hold. A pixel that is not current and whose reprojected UV lies in the
  unit square outputs the variance-clipped history sample. No output depends on
  \<open>temporalAlpha\<close>. In \<open>main\<close> under \<open>TEMPORAL_UPSCALING\<close>, without the debug view, the pixel is
  current when its Bayer entry equals \<open>frame % 16\<close>.
\<close>

theorem upscale_postcondition:
  "(cur \<longrightarrow>
      temporalUpscale defs env coord sub cur =
        \<lparr>outputColor = colorBuffer env sub,
         outputShadowLength = shadow_out defs (r4 (shadowLengthBuffer env sub))\<rparr>
    \<and> (\<forall>h hs. temporalUpscale defs
          (env\<lparr>colorHistoryBuffer := h, shadowLengthHistoryBuffer := hs\<rparr>) coord sub cur
          = temporalUpscale defs env coord sub cur))
   \<and> (\<not> cur \<and> x2 (prevUv env sub) \<in> {0..1} \<and> y2 (prevUv env sub) \<in> {0..1} \<longrightarrow>
      outputColor (temporalUpscale defs env coord sub cur) =
        varianceClipping env (colorBuffer env) sub (colorBuffer env sub)
          (colorHistoryBuffer env (prevUv env sub)) (varianceGamma env))
   \<and> (\<forall>w. temporalUpscale defs (env\<lparr>temporalAlpha := w\<rparr>) coord sub cur
          = temporalUpscale defs env coord sub cur)
   \<and> (TEMPORAL_UPSCALING defs \<and> \<not> DEBUG_SHOW_SHADOW_LENGTH defs
        \<and> 0 \<le> x2 fragCoord \<and> 0 \<le> y2 fragCoord \<and> 0 \<le> frame env \<longrightarrow>
      main defs env fragCoord =
        Some (temporalUpscale defs env (IVec2 \<lfloor>x2 fragCoord\<rfloor> \<lfloor>y2 fragCoord\<rfloor>)
          (IVec2 (\<lfloor>x2 fragCoord\<rfloor> div 4) (\<lfloor>y2 fragCoord\<rfloor> div 4))
          (bayerValue (IVec2 \<lfloor>x2 fragCoord\<rfloor> \<lfloor>y2 fragCoord\<rfloor>) = Some (frame env mod 16))))"
proof (intro conjI impI allI)
  assume cur
  then show "temporalUpscale defs env coord sub cur =
      \<lparr>outputColor = colorBuffer env sub,
       outputShadowLength = shadow_out defs (r4 (shadowLengthBuffer env sub))\<rparr>"
    by (simp add: temporalUpscale_def Let_def rgb_one_def)
  fix h hs
  from \<open>cur\<close> show "temporalUpscale defs
      (env\<lparr>colorHistoryBuffer := h, shadowLengthHistoryBuffer := hs\<rparr>) coord sub cur
      = temporalUpscale defs env coord sub cur"
    by (simp add: temporalUpscale_def Let_def)
next
  assume "\<not> cur \<and> x2 (prevUv env sub) \<in> {0..1} \<and> y2 (prevUv env sub) \<in> {0..1}"
  then have "\<not> cur" and "\<not> rejected (prevUv env sub)"
    by (auto simp: rejected_def)
  then show "outputColor (temporalUpscale defs env coord sub cur) =
      varianceClipping env (colorBuffer env) sub (colorBuffer env sub)
        (colorHistoryBuffer env (prevUv env sub)) (varianceGamma env)"
    by (simp add: temporalUpscale_def Let_def)
next
  fix w
  show "temporalUpscale defs (env\<lparr>temporalAlpha := w\<rparr>) coord sub cur
      = temporalUpscale defs env coord sub cur"
    by (simp add: temporalUpscale_def Let_def prevUv_alpha)
next
  assume a: "TEMPORAL_UPSCALING defs \<and> \<not> DEBUG_SHOW_SHADOW_LENGTH defs
      \<and> 0 \<le> x2 fragCoord \<and> 0 \<le> y2 fragCoord \<and> 0 \<le> frame env"
  let ?coord = "IVec2 \<lfloor>x2 fragCoord\<rfloor> \<lfloor>y2 fragCoord\<rfloor>"
  have nn: "0 \<le> ix ?coord" "0 \<le> iy ?coord"
    using a by simp_all
  from bayerValue_range [OF nn] obtain v where v: "bayerValue ?coord = Some v"
    by blast
  have cur: "isCurrentFrame ?coord (frame env) = Some (bayerValue ?coord = Some (frame env mod 16))"
    using a v by (simp add: isCurrentFrame_def glsl_imod_def)
  have dbg: "debug_override defs out = out" for out
    using a by (simp add: debug_override_def)
  have fi: "float_to_int (x2 fragCoord) = \<lfloor>x2 fragCoord\<rfloor>"
      "float_to_int (y2 fragCoord) = \<lfloor>y2 fragCoord\<rfloor>"
    using a by (simp_all add: float_to_int_def)
  show "main defs env fragCoord =
      Some (temporalUpscale defs env ?coord
        (IVec2 (\<lfloor>x2 fragCoord\<rfloor> div 4) (\<lfloor>y2 fragCoord\<rfloor> div 4))
        (bayerValue ?coord = Some (frame env mod 16)))"
    using a nn cur by (simp add: main_def fi glsl_idiv_def dbg Let_def)
qed

theorem upscale_postcondition_witness:
  "outputColor (temporalUpscale shadow_defines
      (uniform_scene (Vec4 5 1 0 0) (Vec2 (1 / 2) (1 / 2))) (IVec2 13 14) (IVec2 3 3) True)
     = Vec4 1 2 3 4
   \<and> outputColor (temporalUpscale shadow_defines
      (uniform_scene (Vec4 5 1 0 0) (Vec2 (1 / 2) (1 / 2))) (IVec2 13 14) (IVec2 3 3) False)
     = Vec4 9 9 9 9
   \<and> main (shadow_defines\<lparr>TEMPORAL_UPSCALING := True\<rparr>)
       (uniform_scene (Vec4 5 1 0 0) (Vec2 (1 / 2) (1 / 2))) (Vec2 (1 / 2) (1 / 2))
     = Some \<lparr>outputColor = Vec4 1 2 3 4, outputShadowLength = Some 6\<rparr>"
proof -
  let ?env = "uniform_scene (Vec4 5 1 0 0) (Vec2 (1 / 2) (1 / 2))"
  have uv: "prevUv ?env (IVec2 3 3) = Vec2 (49 / 100) (1 / 2)"
    by (simp add: uniform_scene_prevUv)
  have "outputColor (temporalUpscale shadow_defines ?env (IVec2 13 14) (IVec2 3 3) True)
      = Vec4 1 2 3 4"
    using upscale_postcondition [of True shadow_defines ?env "IVec2 13 14" "IVec2 3 3"]
    by (simp add: uniform_scene_def)
  moreover have "outputColor (temporalUpscale shadow_defines ?env (IVec2 13 14) (IVec2 3 3) False)
      = Vec4 9 9 9 9"
    using upscale_postcondition [of False shadow_defines ?env "IVec2 13 14" "IVec2 3 3"]
    by (simp add: uv) (simp add: uniform_scene_def)
  moreover have "main (shadow_defines\<lparr>TEMPORAL_UPSCALING := True\<rparr>) ?env (Vec2 (1 / 2) (1 / 2))
      = Some \<lparr>outputColor = Vec4 1 2 3 4, outputShadowLength = Some 6\<rparr>"
    by (simp add: main_def float_to_int_def glsl_idiv_def isCurrentFrame_def bayerValue_def
        glsl_imod_def mat4_index_def mat4_column_def vec4_component_def bayerIndices_def
        temporalUpscale_def debug_override_def shadow_defines_def shadow_out_def rgb_one_def
        uniform_scene_def)
  ultimately show ?thesis by simp
qed

section \<open>Closest fragment\<close>

lemma neighborSamples_window:
  "set (neighborSamples env c) =
     (\<lambda>(dx, dy). depthVelocityBuffer env (IVec2 (ix c + dx) (iy c + dy)))
       ` ({-1, 0, 1} \<times> {-1, 0, 1})"
  by (simp add: neighborSamples_def neighborOffsets_def texelFetchOffset_def ivec2_add_def)

text \<open>
  Claim C7, as amended. The nine samples are those of the 3x3 window around the coordinate.
  When at least one of them has a depth below the initial value 1e7, \<open>getClosestFragment\<close>
  returns one of the nine samples, its depth is the smallest of the nine, and the previous UV
  is the fragment's UV minus that sample's velocity times the texel size.
\<close>

theorem closest_fragment:
  assumes "\<exists>s\<in>set (neighborSamples env c). r4 s < 10000000"
  shows "set (neighborSamples env c) =
           (\<lambda>(dx, dy). depthVelocityBuffer env (IVec2 (ix c + dx) (iy c + dy)))
             ` ({-1, 0, 1} \<times> {-1, 0, 1})
       \<and> getClosestFragment env c \<in> set (neighborSamples env c)
       \<and> (\<forall>s\<in>set (neighborSamples env c). r4 (getClosestFragment env c) \<le> r4 s)
       \<and> prevUv env c =
           vec2_sub (vUv env) (vec2_mul (gb (getClosestFragment env c)) (texelSize env))"
proof -
  note f = fold_closest [of env c neighborOffsets "Vec4 10000000 0 0 0"]
  have samples: "set (neighborSamples env c)
      = texelFetchOffset (depthVelocityBuffer env) c ` set neighborOffsets"
    by (simp add: neighborSamples_def)
  have least: "\<forall>s\<in>set (neighborSamples env c). r4 (getClosestFragment env c) \<le> r4 s"
    using f unfolding samples getClosestFragment_def by blast
  from assms obtain s where s: "s \<in> set (neighborSamples env c)" "r4 s < 10000000"
    by blast
  with least have "r4 (getClosestFragment env c) < 10000000"
    by fastforce
  then have "getClosestFragment env c \<noteq> Vec4 10000000 0 0 0"
    by auto
  then have mem: "getClosestFragment env c \<in> set (neighborSamples env c)"
    using f unfolding samples getClosestFragment_def by blast
  have uv: "prevUv env c =
      vec2_sub (vUv env) (vec2_mul (gb (getClosestFragment env c)) (texelSize env))"
    by (simp add: prevUv_def)
  from neighborSamples_window mem least uv show ?thesis by blast
qed

theorem closest_fragment_witness:
  "getClosestFragment (uniform_scene (Vec4 5 1 0 0) (Vec2 (1 / 2) (1 / 2))) (IVec2 3 3)
     \<in> set (neighborSamples (uniform_scene (Vec4 5 1 0 0) (Vec2 (1 / 2) (1 / 2))) (IVec2 3 3))
   \<and> prevUv (uniform_scene (Vec4 5 1 0 0) (Vec2 (1 / 2) (1 / 2))) (IVec2 3 3)
     = Vec2 (49 / 100) (1 / 2)"
proof -
  let ?env = "uniform_scene (Vec4 5 1 0 0) (Vec2 (1 / 2) (1 / 2))"
  have s: "set (neighborSamples ?env (IVec2 3 3)) = {Vec4 5 1 0 0}"
    by (simp add: neighborSamples_def neighborOffsets_def texelFetchOffset_def uniform_scene_def)
  have "\<exists>s\<in>set (neighborSamples ?env (IVec2 3 3)). r4 s < 10000000"
    unfolding s by simp
  from closest_fragment [OF this]
  have "getClosestFragment ?env (IVec2 3 3) \<in> set (neighborSamples ?env (IVec2 3 3))"
    by blast
  then show ?thesis
    by (simp add: uniform_scene_prevUv)
qed

text \<open>
  The claim as stated fails when every sample of the window has a depth of 1e7 or more: the
  result is the initial value, which is none of the samples, and the previous UV is not the
  one any sample's velocity gives.
\<close>

theorem closest_fragment_counterexample:
  "set (neighborSamples (uniform_scene (Vec4 20000000 3 4 0) (Vec2 (1 / 2) (1 / 2))) (IVec2 3 3))
     = {Vec4 20000000 3 4 0}
   \<and> getClosestFragment (uniform_scene (Vec4 20000000 3 4 0) (Vec2 (1 / 2) (1 / 2))) (IVec2 3 3)
     = Vec4 10000000 0 0 0
   \<and> getClosestFragment (uniform_scene (Vec4 20000000 3 4 0) (Vec2 (1 / 2) (1 / 2))) (IVec2 3 3)
     \<notin> set (neighborSamples (uniform_scene (Vec4 20000000 3 4 0) (Vec2 (1 / 2) (1 / 2)))
         (IVec2 3 3))
   \<and> prevUv (uniform_scene (Vec4 20000000 3 4 0) (Vec2 (1 / 2) (1 / 2))) (IVec2 3 3)
     = Vec2 (1 / 2) (1 / 2)
   \<and> vec2_sub (vUv (uniform_scene (Vec4 20000000 3 4 0) (Vec2 (1 / 2) (1 / 2))))
       (vec2_mul (gb (Vec4 20000000 3 4 0))
         (texelSize (uniform_scene (Vec4 20000000 3 4 0) (Vec2 (1 / 2) (1 / 2)))))
     = Vec2 (47 / 100) (23 / 50)"
proof -
  let ?env = "uniform_scene (Vec4 20000000 3 4 0) (Vec2 (1 / 2) (1 / 2))"
  have s: "set (neighborSamples ?env (IVec2 3 3)) = {Vec4 20000000 3 4 0}"
    by (simp add: neighborSamples_def neighborOffsets_def texelFetchOffset_def uniform_scene_def)
  have g: "getClosestFragment ?env (IVec2 3 3) = Vec4 10000000 0 0 0"
    by (simp add: uniform_scene_closest)
  have p: "prevUv ?env (IVec2 3 3) = Vec2 (1 / 2) (1 / 2)"
    by (simp add: uniform_scene_prevUv)
  have v: "vec2_sub (vUv ?env) (vec2_mul (gb (Vec4 20000000 3 4 0)) (texelSize ?env))
      = Vec2 (47 / 100) (23 / 50)"
    by (simp add: uniform_scene_def gb_def vec2_mul_def vec2_sub_def)
  show ?thesis unfolding s g p v by simp
qed

text \<open>
  Claim C10. When all nine samples of the window have a depth of 1e7 or more,
  \<open>getClosestFragment\<close> returns its initial value \<open>(1e7, 0, 0, 0)\<close>: the velocity is zero and the
  previous UV is the fragment's UV. With that UV in the unit square the history is not
  rejected: both temporal functions sample the history at the fragment's own UV.
\<close>

theorem sentinel_no_rejection:
  assumes "\<forall>s\<in>set (neighborSamples env c). 10000000 \<le> r4 s"
    and "x2 (vUv env) \<in> {0..1}" and "y2 (vUv env) \<in> {0..1}"
  shows "getClosestFragment env c = Vec4 10000000 0 0 0
       \<and> vec2_mul (gb (getClosestFragment env c)) (texelSize env) = Vec2 0 0
       \<and> prevUv env c = vUv env
       \<and> \<not> rejected (prevUv env c)
       \<and> outputColor (temporalAntialias defs env c) =
           mix4 (varianceClippingDefault env (colorBuffer env) c (colorBuffer env c)
                  (colorHistoryBuffer env (vUv env)))
             (colorBuffer env c) (temporalAlpha env)
       \<and> outputColor (temporalUpscale defs env coord c False) =
           varianceClipping env (colorBuffer env) c (colorBuffer env c)
             (colorHistoryBuffer env (vUv env)) (varianceGamma env)"
proof -
  note f = fold_closest [of env c neighborOffsets "Vec4 10000000 0 0 0"]
  have "\<forall>off\<in>set neighborOffsets.
      r4 (Vec4 10000000 0 0 0) \<le> r4 (texelFetchOffset (depthVelocityBuffer env) c off)"
    using assms(1) by (simp add: neighborSamples_def)
  with f have g: "getClosestFragment env c = Vec4 10000000 0 0 0"
    unfolding getClosestFragment_def by blast
  have v: "vec2_mul (gb (getClosestFragment env c)) (texelSize env) = Vec2 0 0"
    by (simp add: g gb_def vec2_mul_def)
  have p: "prevUv env c = vUv env"
    by (simp add: prevUv_def v vec2_sub_def)
  have r: "\<not> rejected (prevUv env c)"
    using assms(2,3) by (simp add: p rejected_def)
  have a: "outputColor (temporalAntialias defs env c) =
      mix4 (varianceClippingDefault env (colorBuffer env) c (colorBuffer env c)
             (colorHistoryBuffer env (vUv env)))
        (colorBuffer env c) (temporalAlpha env)"
    using r by (simp add: temporalAntialias_def Let_def p)
  have u: "outputColor (temporalUpscale defs env coord c False) =
      varianceClipping env (colorBuffer env) c (colorBuffer env c)
        (colorHistoryBuffer env (vUv env)) (varianceGamma env)"
    using r by (simp add: temporalUpscale_def Let_def p)
  from g v p r a u show ?thesis by blast
qed

theorem sentinel_no_rejection_witness:
  "getClosestFragment (uniform_scene (Vec4 20000000 3 4 0) (Vec2 (1 / 2) (1 / 2))) (IVec2 3 3)
     = Vec4 10000000 0 0 0
   \<and> prevUv (uniform_scene (Vec4 20000000 3 4 0) (Vec2 (1 / 2) (1 / 2))) (IVec2 3 3)
     = Vec2 (1 / 2) (1 / 2)
   \<and> outputColor (temporalAntialias shadow_defines
        (uniform_scene (Vec4 20000000 3 4 0) (Vec2 (1 / 2) (1 / 2))) (IVec2 3 3))
     = Vec4 7 (29 / 4) (15 / 2) (31 / 4)"
proof -
  let ?env = "uniform_scene (Vec4 20000000 3 4 0) (Vec2 (1 / 2) (1 / 2))"
  have s: "set (neighborSamples ?env (IVec2 3 3)) = {Vec4 20000000 3 4 0}"
    by (simp add: neighborSamples_def neighborOffsets_def texelFetchOffset_def uniform_scene_def)
  have h: "\<forall>s\<in>set (neighborSamples ?env (IVec2 3 3)). 10000000 \<le> r4 s"
    unfolding s by simp
  have x: "x2 (vUv ?env) \<in> {0..1}" and y: "y2 (vUv ?env) \<in> {0..1}"
    by (simp_all add: uniform_scene_def)
  from sentinel_no_rejection [OF h x y, of shadow_defines "IVec2 3 3"] show ?thesis
    by (simp add: uniform_scene_def mix4_def mix_def)
qed

section \<open>Aerial perspective\<close>

text \<open>
  Claim C4. A pixel whose depth is at least \<open>1 - 1e-7\<close>, in particular exactly 1, keeps its
  input colour, in every build and whatever the matrices, the buffers and the atmosphere
  lookups are: none of them is consulted.
\<close>

theorem far_plane_identity:
  "(1 - 1 / 10000000 \<le> readDepth env uv \<longrightarrow>
      mainImage defs env inputColor uv = inputColor
    \<and> (\<forall>defs' env'. readDepth env' uv = readDepth env uv \<longrightarrow>
          mainImage defs' env' inputColor uv = inputColor))
   \<and> (readDepth env uv = 1 \<longrightarrow> mainImage defs env inputColor uv = inputColor)"
  by (simp add: mainImage_def)

theorem far_plane_identity_witness:
  "readDepth (overhead_scene 1) (Vec2 (1 / 2) (1 / 2)) = 1
   \<and> mainImage all_features (overhead_scene 1) (Vec4 (1 / 2) (1 / 2) (1 / 2) (3 / 4))
       (Vec2 (1 / 2) (1 / 2)) = Vec4 (1 / 2) (1 / 2) (1 / 2) (3 / 4)"
proof -
  have d: "readDepth (overhead_scene 1) (Vec2 (1 / 2) (1 / 2)) = 1"
    by (simp add: overhead_scene_def)
  with far_plane_identity [of "overhead_scene 1" "Vec2 (1 / 2) (1 / 2)" all_features
      "Vec4 (1 / 2) (1 / 2) (1 / 2) (3 / 4)"]
  show ?thesis by simp
qed

text \<open>
  Claim C9. The alpha channel of the output is the alpha channel of the input, on the far-plane
  branch and on the shaded branch, in every build.
\<close>

theorem alpha_preserved: "a4 (mainImage defs env inputColor uv) = a4 inputColor"
  by (simp add: mainImage_def Let_def split: prod.splits)

subsection \<open>Rounding to binary32\<close>

lemma round_even_cases: "round_even q = \<lfloor>q\<rfloor> \<or> round_even q = \<lfloor>q\<rfloor> + 1 \<and> of_int \<lfloor>q\<rfloor> < q"
  by (auto simp: round_even_def Let_def)

lemma round_even_ge_floor: "\<lfloor>q\<rfloor> \<le> round_even q"
  using round_even_cases [of q] by auto

lemma round_even_le_floor: "round_even q \<le> \<lfloor>q\<rfloor> + 1"
  using round_even_cases [of q] by auto

lemma round_even_bounds:
  assumes "of_int a \<le> q" and "q \<le> of_int b"
  shows "a \<le> round_even q" and "round_even q \<le> b"
proof -
  have "a \<le> \<lfloor>q\<rfloor>" using assms(1) by (simp add: le_floor_iff)
  then show "a \<le> round_even q" using round_even_ge_floor [of q] by linarith
  show "round_even q \<le> b"
  proof (cases "round_even q = \<lfloor>q\<rfloor>")
    case True
    then show ?thesis using assms(2) by (simp add: floor_le_iff)
  next
    case False
    with round_even_cases [of q] have r: "round_even q = \<lfloor>q\<rfloor> + 1" and lt: "of_int \<lfloor>q\<rfloor> < q"
      by auto
    from lt assms(2) have "of_int \<lfloor>q\<rfloor> < (of_int b :: real)" by linarith
    then have "\<lfloor>q\<rfloor> < b" by simp
    with r show ?thesis by simp
  qed
qed

lemma round_even_mono:
  assumes "q \<le> q'"
  shows "round_even q \<le> round_even q'"
proof (cases "\<lfloor>q\<rfloor> = \<lfloor>q'\<rfloor>")
  case True
  with assms show ?thesis
    by (auto simp: round_even_def Let_def)
next
  case False
  moreover have "\<lfloor>q\<rfloor> \<le> \<lfloor>q'\<rfloor>" using assms by (rule floor_mono)
  ultimately have "\<lfloor>q\<rfloor> + 1 \<le> \<lfloor>q'\<rfloor>" by simp
  with round_even_le_floor [of q] round_even_ge_floor [of q'] show ?thesis by linarith
qed

lemma round_even_of_int: "round_even (of_int n) = n"
  by (simp add: round_even_def)

lemma exponent_bounds:
  assumes "x \<noteq> 0"
  shows "2 powr of_int (exponent x) \<le> \<bar>x\<bar>" and "\<bar>x\<bar> < 2 * 2 powr of_int (exponent x)"
proof -
  have "0 < \<bar>x\<bar>" using assms by simp
  from floor_log_eq_powr_iff [OF this, of 2 "exponent x"]
  have "2 powr of_int (exponent x) \<le> \<bar>x\<bar> \<and> \<bar>x\<bar> < 2 powr (of_int (exponent x) + 1)"
    by (simp add: exponent_def)
  then show "2 powr of_int (exponent x) \<le> \<bar>x\<bar>" and "\<bar>x\<bar> < 2 * 2 powr of_int (exponent x)"
    by (simp_all add: powr_add)
qed

lemma exponent_eqI:
  assumes "2 powr of_int k \<le> \<bar>x\<bar>" and "\<bar>x\<bar> < 2 * 2 powr of_int k"
  shows "exponent x = k"
proof -
  have "0 < \<bar>x\<bar>" using assms(1) powr_gt_zero [of 2 "of_int k"] by linarith
  from floor_log_eq_powr_iff [OF this, of 2 k] assms show ?thesis
    by (simp add: exponent_def powr_add)
qed

lemma ulp_pos: "0 < ulp x"
  by (simp add: ulp_def)

lemma ulp_scale: "ulp x * 8388608 = 2 powr of_int (exponent x)"
proof -
  have "(2::real) powr of_int (exponent x - 23) = 2 powr of_int (exponent x) / 2 powr 23"
    by (simp add: powr_diff)
  then show ?thesis by (simp add: ulp_def)
qed


lemma scaled_range:
  assumes "x \<noteq> 0"
  shows "8388608 \<le> \<bar>x\<bar> / ulp x" and "\<bar>x\<bar> / ulp x < 16777216"
proof -
  note u = ulp_scale [of x] and p = ulp_pos [of x]
  from exponent_bounds(1) [OF assms] have "ulp x * 8388608 \<le> \<bar>x\<bar>"
    unfolding u .
  then show "8388608 \<le> \<bar>x\<bar> / ulp x"
    using p by (simp add: le_divide_eq mult.commute)
  from exponent_bounds(2) [OF assms] have "\<bar>x\<bar> < 2 * (ulp x * 8388608)"
    unfolding u .
  then show "\<bar>x\<bar> / ulp x < 16777216"
    using p by (simp add: divide_less_eq)
qed

lemma binary32_pos_bounds:
  assumes "0 < x"
  shows "2 powr of_int (exponent x) \<le> binary32 x"
    and "binary32 x \<le> 2 * 2 powr of_int (exponent x)"
proof -
  have nz: "x \<noteq> 0" using assms by simp
  note u = ulp_scale [of x] and p = ulp_pos [of x]
  from scaled_range [OF nz] assms
  have lo: "of_int 8388608 \<le> x / ulp x" and hi: "x / ulp x \<le> of_int 16777216"
    by simp_all
  from round_even_bounds [OF lo hi]
  have r: "8388608 \<le> round_even (x / ulp x)" "round_even (x / ulp x) \<le> 16777216" .
  have b: "binary32 x = of_int (round_even (x / ulp x)) * ulp x"
    using nz by (simp add: binary32_def)
  have "8388608 * ulp x \<le> of_int (round_even (x / ulp x)) * ulp x"
    using r(1) p by (intro mult_right_mono) simp_all
  then show "2 powr of_int (exponent x) \<le> binary32 x"
    unfolding b u [symmetric] by (simp add: mult.commute)
  have "of_int (round_even (x / ulp x)) * ulp x \<le> 16777216 * ulp x"
    using r(2) p by (intro mult_right_mono) simp_all
  then show "binary32 x \<le> 2 * 2 powr of_int (exponent x)"
    unfolding b u [symmetric] by simp
qed

lemma round_even_minus: "round_even (- q) = - round_even q"
proof (cases "q = of_int \<lfloor>q\<rfloor>")
  case True
  then obtain n where "q = of_int n" ..
  then have "round_even q = n" "round_even (- q) = - n"
    using round_even_of_int [of n] round_even_of_int [of "- n"] by simp_all
  then show ?thesis by simp
next
  case False
  then have lt: "of_int \<lfloor>q\<rfloor> < q" using of_int_floor_le [of q] by linarith
  have up: "q < of_int \<lfloor>q\<rfloor> + 1" by linarith
  have c: "real_of_int (- \<lfloor>q\<rfloor> - 1) = - real_of_int \<lfloor>q\<rfloor> - 1" by simp
  have "of_int (- \<lfloor>q\<rfloor> - 1) \<le> - q" unfolding c using up by linarith
  moreover have "- q < of_int (- \<lfloor>q\<rfloor> - 1) + 1" unfolding c using lt by linarith
  ultimately have f: "\<lfloor>- q\<rfloor> = - \<lfloor>q\<rfloor> - 1"
    by (rule floor_unique)
  show ?thesis
    unfolding round_even_def Let_def f using lt by (auto simp: algebra_simps)
qed

lemma exponent_minus: "exponent (- x) = exponent x"
  by (simp add: exponent_def)

lemma ulp_minus: "ulp (- x) = ulp x"
  by (simp add: ulp_def exponent_minus)

lemma binary32_minus: "binary32 (- x) = - binary32 x"
  by (simp add: binary32_def ulp_minus round_even_minus)

lemma binary32_positive: "0 < x \<Longrightarrow> 0 < binary32 x"
  using binary32_pos_bounds(1) [of x] powr_gt_zero [of 2 "of_int (exponent x)"] by linarith

lemma exponent_mono:
  assumes "0 < x" and "x \<le> y"
  shows "exponent x \<le> exponent y"
  unfolding exponent_def using assms by (intro floor_mono) simp

lemma binary32_mono_pos:
  assumes "0 < x" and "x \<le> y"
  shows "binary32 x \<le> binary32 y"
proof (cases "exponent x = exponent y")
  case True
  then have u: "ulp x = ulp y" by (simp add: ulp_def)
  have "x / ulp y \<le> y / ulp y"
    using assms(2) ulp_pos [of y] by (simp add: divide_right_mono)
  then have "round_even (x / ulp y) \<le> round_even (y / ulp y)"
    by (rule round_even_mono)
  then have "of_int (round_even (x / ulp y)) * ulp y \<le> of_int (round_even (y / ulp y)) * ulp y"
    using ulp_pos [of y] by (intro mult_right_mono) simp_all
  then show ?thesis
    using assms by (simp add: binary32_def u)
next
  case False
  with exponent_mono [OF assms] have "exponent x + 1 \<le> exponent y" by simp
  then have "(2::real) powr of_int (exponent x + 1) \<le> 2 powr of_int (exponent y)"
    by simp
  then have "2 * (2::real) powr of_int (exponent x) \<le> 2 powr of_int (exponent y)"
    by (simp add: powr_add)
  moreover have "0 < y" using assms by simp
  ultimately show ?thesis
    using binary32_pos_bounds(2) [OF assms(1)] binary32_pos_bounds(1) [of y] by linarith
qed

lemma binary32_mono: "x \<le> y \<Longrightarrow> binary32 x \<le> binary32 y"
proof -
  assume le: "x \<le> y"
  consider "0 < x" | "y < 0" | "x \<le> 0" "0 \<le> y" by linarith
  then show ?thesis
  proof cases
    case 1
    then show ?thesis using le by (rule binary32_mono_pos)
  next
    case 2
    then have "0 < - y" "- y \<le> - x" using le by simp_all
    from binary32_mono_pos [OF this] show ?thesis by (simp add: binary32_minus)
  next
    case 3
    have "binary32 x \<le> 0"
    proof (cases "x = 0")
      case True then show ?thesis by (simp add: binary32_def)
    next
      case False
      with 3 have "0 < - x" by simp
      from binary32_positive [OF this] show ?thesis by (simp add: binary32_minus)
    qed
    moreover have "0 \<le> binary32 y"
    proof (cases "y = 0")
      case True then show ?thesis by (simp add: binary32_def)
    next
      case False
      with 3 have "0 < y" by simp
      from binary32_positive [OF this] show ?thesis by simp
    qed
    ultimately show ?thesis by linarith
  qed
qed


lemma binary32_eval:
  assumes "2 powr of_int k \<le> \<bar>x\<bar>" and "\<bar>x\<bar> < 2 * 2 powr of_int k"
  shows "binary32 x =
    of_int (round_even (x / 2 powr of_int (k - 23))) * 2 powr of_int (k - 23)"
proof -
  have "0 < \<bar>x\<bar>" using assms(1) powr_gt_zero [of 2 "of_int k"] by linarith
  then have "x \<noteq> 0" by simp
  then show ?thesis
    by (simp add: binary32_def ulp_def exponent_eqI [OF assms])
qed

lemma binary32_eval_ge1:
  fixes k :: nat
  assumes "2 ^ k \<le> \<bar>x\<bar>" and "\<bar>x\<bar> < 2 * 2 ^ k"
  shows "binary32 x = of_int (round_even (x * 8388608 / 2 ^ k)) * 2 ^ k / 8388608"
proof -
  have p: "(2::real) powr of_int (int k) = 2 ^ k"
    by (simp add: powr_realpow)
  have q: "(2::real) powr of_int (int k - 23) = 2 ^ k / 8388608"
    by (simp add: powr_diff powr_realpow)
  from binary32_eval [of "int k" x] assms show ?thesis
    unfolding p q by simp
qed

lemma binary32_eval_lt1:
  fixes k :: nat
  assumes "1 \<le> \<bar>x\<bar> * 2 ^ k" and "\<bar>x\<bar> * 2 ^ k < 2"
  shows "binary32 x = of_int (round_even (x * (8388608 * 2 ^ k))) / (8388608 * 2 ^ k)"
proof -
  have p: "(2::real) powr of_int (- int k) = 1 / 2 ^ k"
    by (simp add: powr_minus powr_realpow inverse_eq_divide)
  have q: "(2::real) powr of_int (- int k - 23) = 1 / (8388608 * 2 ^ k)"
    by (simp add: powr_diff powr_minus powr_realpow inverse_eq_divide)
  have a: "2 powr of_int (- int k) \<le> \<bar>x\<bar>"
    unfolding p using assms(1) by (simp add: divide_le_eq)
  have b: "\<bar>x\<bar> < 2 * 2 powr of_int (- int k)"
    unfolding p using assms(2) by (simp add: less_divide_eq)
  from binary32_eval [OF a b] show ?thesis
    unfolding q by simp
qed

lemma binary32_small: "binary32 0 = 0" "binary32 1 = 1" "binary32 2 = 2"
proof -
  show "binary32 0 = 0" by (simp add: binary32_def)
  show "binary32 1 = 1" using binary32_eval_ge1 [of 0 1] by (simp add: round_even_def)
  show "binary32 2 = 2" using binary32_eval_ge1 [of 1 2] by (simp add: round_even_def)
qed

lemma binary32_rounding: "float_rounding binary32"
  unfolding float_rounding_def
  using binary32_mono binary32_positive binary32_small by blast

lemma exact_rounding: "float_rounding (\<lambda>x. x)"
  by (simp add: float_rounding_def)

subsection \<open>Horizon correction\<close>

lemma clamp_unit: "0 \<le> clamp x 0 1" "clamp x 0 1 \<le> 1"
  by (simp_all add: clamp_def)

lemma clamp_mono: "x \<le> y \<Longrightarrow> clamp x 0 1 \<le> clamp y 0 1"
  by (simp add: clamp_def min_def max_def)

lemma hermite_mono:
  fixes s t :: real
  assumes "0 \<le> s" and "s \<le> t" and "t \<le> 1"
  shows "s * s * (3 - 2 * s) \<le> t * t * (3 - 2 * t)"
proof -
  have "t * t * (3 - 2 * t) - s * s * (3 - 2 * s)
      = (t - s) * (2 * (s * (1 - s)) + 2 * (t * (1 - t)) + s * (1 - t) + t * (1 - s))"
    by (simp add: algebra_simps)
  moreover have "0 \<le> t - s" "0 \<le> s * (1 - s)" "0 \<le> t * (1 - t)" "0 \<le> s * (1 - t)"
      "0 \<le> t * (1 - s)"
    using assms by simp_all
  ultimately have "0 \<le> t * t * (3 - 2 * t) - s * s * (3 - 2 * s)"
    by simp
  then show ?thesis by simp
qed

lemma rounding_facts:
  assumes "float_rounding rnd"
  shows "x \<le> y \<Longrightarrow> rnd x \<le> rnd y" and "rnd 0 = 0" and "rnd 1 = 1" and "rnd 2 = 2"
    and "0 < x \<Longrightarrow> 0 < rnd x"
  using assms unfolding float_rounding_def by blast+

lemma smoothstep_t_low:
  assumes "float_rounding rnd" and "e0 < e1" and "x \<le> e0"
  shows "smoothstep_t rnd e0 e1 x = 0"
proof -
  note r = rounding_facts [OF assms(1)]
  have d: "0 < rnd (e1 - e0)" using assms(2) by (intro r(5)) simp
  have "rnd (x - e0) \<le> rnd 0" using assms(3) by (intro r(1)) simp
  then have "rnd (x - e0) \<le> 0" by (simp add: r(2))
  with d have "rnd (x - e0) / rnd (e1 - e0) \<le> 0"
    by (simp add: divide_le_0_iff)
  then have "rnd (rnd (x - e0) / rnd (e1 - e0)) \<le> rnd 0" by (rule r(1))
  then have "rnd (rnd (x - e0) / rnd (e1 - e0)) \<le> 0" by (simp add: r(2))
  then show ?thesis by (simp add: smoothstep_t_def clamp_def)
qed

lemma smoothstep_t_high:
  assumes "float_rounding rnd" and "e0 < e1" and "e1 \<le> x"
  shows "smoothstep_t rnd e0 e1 x = 1"
proof -
  note r = rounding_facts [OF assms(1)]
  have d: "0 < rnd (e1 - e0)" using assms(2) by (intro r(5)) simp
  have "rnd (e1 - e0) \<le> rnd (x - e0)" using assms(3) by (intro r(1)) simp
  with d have "1 \<le> rnd (x - e0) / rnd (e1 - e0)"
    by (simp add: le_divide_eq)
  then have "rnd 1 \<le> rnd (rnd (x - e0) / rnd (e1 - e0))" by (rule r(1))
  then have "1 \<le> rnd (rnd (x - e0) / rnd (e1 - e0))" by (simp add: r(3))
  then show ?thesis by (simp add: smoothstep_t_def clamp_def)
qed

lemma smoothstep_t_mono:
  assumes "float_rounding rnd" and "e0 < e1" and "x \<le> y"
  shows "smoothstep_t rnd e0 e1 x \<le> smoothstep_t rnd e0 e1 y"
proof -
  note r = rounding_facts [OF assms(1)]
  have d: "0 < rnd (e1 - e0)" using assms(2) by (intro r(5)) simp
  have "rnd (x - e0) \<le> rnd (y - e0)" using assms(3) by (intro r(1)) simp
  with d have "rnd (x - e0) / rnd (e1 - e0) \<le> rnd (y - e0) / rnd (e1 - e0)"
    by (simp add: divide_right_mono)
  then have "rnd (rnd (x - e0) / rnd (e1 - e0)) \<le> rnd (rnd (y - e0) / rnd (e1 - e0))"
    by (rule r(1))
  then show ?thesis
    unfolding smoothstep_t_def by (rule clamp_mono)
qed

lemma smoothstep_low:
  assumes "float_rounding rnd" and "e0 < e1" and "x \<le> e0"
  shows "smoothstep rnd e0 e1 x = 0"
  using rounding_facts(2) [OF assms(1)]
  by (simp add: smoothstep_def smoothstep_t_low [OF assms])

lemma smoothstep_high:
  assumes "float_rounding rnd" and "e0 < e1" and "e1 \<le> x"
  shows "smoothstep rnd e0 e1 x = 1"
  using rounding_facts(3,4) [OF assms(1)]
  by (simp add: smoothstep_def smoothstep_t_high [OF assms])

lemma smoothstep_exact_mono:
  assumes "e0 < e1" and "x \<le> y"
  shows "smoothstep (\<lambda>x. x) e0 e1 x \<le> smoothstep (\<lambda>x. x) e0 e1 y"
proof -
  have "smoothstep_t (\<lambda>x. x) e0 e1 x \<le> smoothstep_t (\<lambda>x. x) e0 e1 y"
    using exact_rounding assms by (rule smoothstep_t_mono)
  moreover have "0 \<le> smoothstep_t (\<lambda>x. x) e0 e1 x" "smoothstep_t (\<lambda>x. x) e0 e1 y \<le> 1"
    by (simp_all add: smoothstep_t_def clamp_unit)
  ultimately show ?thesis
    unfolding smoothstep_def Let_def by (intro hermite_mono)
qed

lemma mix_lerp: "mix x y t = x + t * (y - x)"
  by (simp add: mix_def algebra_simps)

lemma mix3_lerp: "mix3 p q t = vec3_add p (vec3_scale t (vec3_sub q p))"
  by (simp add: mix3_def mix_lerp vec3_add_def vec3_scale_def vec3_sub_def)

lemma mix3_ends: "mix3 p q 0 = p" "mix3 p q 1 = q"
  by (simp_all add: mix3_def mix_def)

text \<open>The factor at two adjacent binary32 heights between the edges 2e5 and 6e5.\<close>

lemma smoothstep_t_low_height:
  "smoothstep_t binary32 200000 600000 (4739125 / 8) = 2057257 / 2097152"
proof -
  have a1: "4739125 / 8 - 200000 = (3139125 / 8 :: real)"
    by simp
  have a2: "600000 - 200000 = (400000 :: real)"
    by simp
  have n: "binary32 (3139125 / 8) = 3139125 / 8"
    using binary32_eval_ge1 [of 18 "3139125 / 8"] by (simp add: round_even_def)
  have d: "binary32 400000 = 400000"
    using binary32_eval_ge1 [of 18 "400000"] by (simp add: round_even_def)
  have a3: "(3139125 / 8) / 400000 = (25113 / 25600 :: real)"
    by simp
  have q: "binary32 (25113 / 25600) = 2057257 / 2097152"
    using binary32_eval_lt1 [of "25113 / 25600" 1] by (simp add: round_even_def)
  have c: "clamp (2057257 / 2097152) 0 1 = 2057257 / 2097152"
    by (simp add: clamp_def)
  show ?thesis
    unfolding smoothstep_t_def a1 a2 n d a3 q c ..
qed

lemma smoothstep_low_height:
  "smoothstep binary32 200000 600000 (4739125 / 8) = 16759233 / 16777216"
proof -
  have b1: "(2057257 / 2097152) * (2057257 / 2097152) = (4232306364049 / 4398046511104 :: real)"
    by simp
  have tt: "binary32 (4232306364049 / 4398046511104) = 2018121 / 2097152"
    using binary32_eval_lt1 [of "4232306364049 / 4398046511104" 1] by (simp add: round_even_def)
  have b2: "2 * (2057257 / 2097152) = (2057257 / 1048576 :: real)"
    by simp
  have t2: "binary32 (2057257 / 1048576) = 2057257 / 1048576"
    using binary32_eval_ge1 [of 0 "2057257 / 1048576"] by (simp add: round_even_def)
  have b3: "3 - (2057257 / 1048576) = (1088471 / 1048576 :: real)"
    by simp
  have s: "binary32 (1088471 / 1048576) = 1088471 / 1048576"
    using binary32_eval_ge1 [of 0 "1088471 / 1048576"] by (simp add: round_even_def)
  have b4: "(2018121 / 2097152) * (1088471 / 1048576) = (2196666182991 / 2199023255552 :: real)"
    by simp
  have r: "binary32 (2196666182991 / 2199023255552) = 16759233 / 16777216"
    using binary32_eval_lt1 [of "2196666182991 / 2199023255552" 1] by (simp add: round_even_def)
  show ?thesis
    unfolding smoothstep_def Let_def smoothstep_t_low_height b1 tt b2 t2 b3 s b4 r ..
qed

lemma smoothstep_t_high_height:
  "smoothstep_t binary32 200000 600000 (9478251 / 16) = 8229029 / 8388608"
proof -
  have a1: "9478251 / 16 - 200000 = (6278251 / 16 :: real)"
    by simp
  have a2: "600000 - 200000 = (400000 :: real)"
    by simp
  have n: "binary32 (6278251 / 16) = 6278251 / 16"
    using binary32_eval_ge1 [of 18 "6278251 / 16"] by (simp add: round_even_def)
  have d: "binary32 400000 = 400000"
    using binary32_eval_ge1 [of 18 "400000"] by (simp add: round_even_def)
  have a3: "(6278251 / 16) / 400000 = (6278251 / 6400000 :: real)"
    by simp
  have q: "binary32 (6278251 / 6400000) = 8229029 / 8388608"
    using binary32_eval_lt1 [of "6278251 / 6400000" 1] by (simp add: round_even_def)
  have c: "clamp (8229029 / 8388608) 0 1 = 8229029 / 8388608"
    by (simp add: clamp_def)
  show ?thesis
    unfolding smoothstep_t_def a1 a2 n d a3 q c ..
qed

lemma smoothstep_high_height:
  "smoothstep binary32 200000 600000 (9478251 / 16) = 261863 / 262144"
proof -
  have b1: "(8229029 / 8388608) * (8229029 / 8388608) = (67716918282841 / 70368744177664 :: real)"
    by simp
  have tt: "binary32 (67716918282841 / 70368744177664) = 16144971 / 16777216"
    using binary32_eval_lt1 [of "67716918282841 / 70368744177664" 1] by (simp add: round_even_def)
  have b2: "2 * (8229029 / 8388608) = (8229029 / 4194304 :: real)"
    by simp
  have t2: "binary32 (8229029 / 4194304) = 8229029 / 4194304"
    using binary32_eval_ge1 [of 0 "8229029 / 4194304"] by (simp add: round_even_def)
  have b3: "3 - (8229029 / 4194304) = (4353883 / 4194304 :: real)"
    by simp
  have s: "binary32 (4353883 / 4194304) = 4353883 / 4194304"
    using binary32_eval_ge1 [of 0 "4353883 / 4194304"] by (simp add: round_even_def)
  have b4: "(16144971 / 16777216) * (4353883 / 4194304) = (70293314772393 / 70368744177664 :: real)"
    by simp
  have r: "binary32 (70293314772393 / 70368744177664) = 261863 / 262144"
    using binary32_eval_lt1 [of "70293314772393 / 70368744177664" 1] by (simp add: round_even_def)
  show ?thesis
    unfolding smoothstep_def Let_def smoothstep_t_high_height b1 tt b2 t2 b3 s b4 r ..
qed

text \<open>
  Claim C5, as amended. Let \<open>minHeight < maxHeight\<close> and let the arithmetic round with a
  monotone rounding that is exact on 0, 1 and 2 and keeps positive numbers positive (exact
  arithmetic and binary32 do). Then the factor \<open>smoothstep(minHeight, maxHeight, h)\<close> is 0 for
  \<open>h \<le> minHeight\<close> and 1 for \<open>h \<ge> maxHeight\<close>, and the clamped ratio \<open>t\<close> it is computed from is
  non-decreasing in \<open>h\<close>. The factor itself is non-decreasing in \<open>h\<close> in exact arithmetic.
  Where the ellipsoid normal is defined, \<open>correctGeometricError\<close> moves the position and the
  normal from the reconstructed values towards the values derived from the ellipsoid by that
  factor, \<open>v + t * (e - v)\<close>; it leaves them unchanged when the camera is at or below
  \<open>minHeight\<close>, and returns the ellipsoid's when the camera is at or above \<open>maxHeight\<close>.
\<close>

theorem horizon_correction:
  assumes "float_rounding rnd" and "minHeight < maxHeight"
  shows "(h \<le> minHeight \<longrightarrow> smoothstep rnd minHeight maxHeight h = 0)
       \<and> (maxHeight \<le> h \<longrightarrow> smoothstep rnd minHeight maxHeight h = 1)
       \<and> (h \<le> h' \<longrightarrow>
            smoothstep_t rnd minHeight maxHeight h \<le> smoothstep_t rnd minHeight maxHeight h')
       \<and> (h \<le> h' \<longrightarrow>
            smoothstep (\<lambda>x. x) minHeight maxHeight h \<le> smoothstep (\<lambda>x. x) minHeight maxHeight h')
       \<and> (float_round env = rnd \<and> normal_defined env p \<longrightarrow>
            correctGeometricError env minHeight maxHeight (p, n) =
              (let t = smoothstep rnd minHeight maxHeight (cameraHeight env);
                   en = normalize3 (vec3_mul (scalar_div_vec3 1 (vEllipsoidRadiiSquared env)) p);
                   ep = vec3_scale (u_bottom_radius env) en
               in (vec3_add p (vec3_scale t (vec3_sub ep p)),
                   vec3_add n (vec3_scale t (vec3_sub en n))))
          \<and> (cameraHeight env \<le> minHeight \<longrightarrow>
               correctGeometricError env minHeight maxHeight (p, n) = (p, n))
          \<and> (maxHeight \<le> cameraHeight env \<longrightarrow>
               correctGeometricError env minHeight maxHeight (p, n) =
                 (let en = normalize3
                        (vec3_mul (scalar_div_vec3 1 (vEllipsoidRadiiSquared env)) p)
                  in (vec3_scale (u_bottom_radius env) en, en))))"
proof (intro conjI impI)
  show "smoothstep rnd minHeight maxHeight h = 0" if "h \<le> minHeight"
    using assms that by (rule smoothstep_low)
  show "smoothstep rnd minHeight maxHeight h = 1" if "maxHeight \<le> h"
    using assms that by (rule smoothstep_high)
  show "smoothstep_t rnd minHeight maxHeight h \<le> smoothstep_t rnd minHeight maxHeight h'"
    if "h \<le> h'"
    using assms that by (rule smoothstep_t_mono)
  show "smoothstep (\<lambda>x. x) minHeight maxHeight h \<le> smoothstep (\<lambda>x. x) minHeight maxHeight h'"
    if "h \<le> h'"
    using assms(2) that by (rule smoothstep_exact_mono)
next
  assume e: "float_round env = rnd \<and> normal_defined env p"
  show "correctGeometricError env minHeight maxHeight (p, n) =
      (let t = smoothstep rnd minHeight maxHeight (cameraHeight env);
           en = normalize3 (vec3_mul (scalar_div_vec3 1 (vEllipsoidRadiiSquared env)) p);
           ep = vec3_scale (u_bottom_radius env) en
       in (vec3_add p (vec3_scale t (vec3_sub ep p)),
           vec3_add n (vec3_scale t (vec3_sub en n))))"
    using e by (simp add: correctGeometricError_def Let_def mix3_lerp)
  show "correctGeometricError env minHeight maxHeight (p, n) = (p, n)"
    if "cameraHeight env \<le> minHeight"
    using smoothstep_low [OF assms that] e by (simp add: correctGeometricError_def mix3_ends)
  show "correctGeometricError env minHeight maxHeight (p, n) =
      (let en = normalize3 (vec3_mul (scalar_div_vec3 1 (vEllipsoidRadiiSquared env)) p)
       in (vec3_scale (u_bottom_radius env) en, en))"
    if "maxHeight \<le> cameraHeight env"
    using smoothstep_high [OF assms that] e by (simp add: correctGeometricError_def mix3_ends)
qed

theorem horizon_correction_witness:
  "smoothstep binary32 200000 600000 10000 = 0
   \<and> smoothstep binary32 200000 600000 700000 = 1
   \<and> smoothstep_t binary32 200000 600000 (4739125 / 8)
       \<le> smoothstep_t binary32 200000 600000 (9478251 / 16)
   \<and> smoothstep (\<lambda>x. x) 200000 600000 (4739125 / 8)
       \<le> smoothstep (\<lambda>x. x) 200000 600000 (9478251 / 16)
   \<and> correctGeometricError (overhead_scene (1 / 2)) 200000 600000 (Vec3 0 0 5, Vec3 0 0 1)
       = (Vec3 0 0 5, Vec3 0 0 1)"
proof -
  have lt: "(200000::real) < 600000" by simp
  have le: "(4739125 / 8 :: real) \<le> 9478251 / 16" by simp
  have c: "cameraHeight (overhead_scene (1 / 2)) \<le> 200000"
    by (simp add: overhead_scene_def)
  have e: "float_round (overhead_scene (1 / 2)) = binary32
      \<and> normal_defined (overhead_scene (1 / 2)) (Vec3 0 0 5)"
    by (simp add: overhead_scene_def normal_defined_def length3_def vec3_mul_def
        scalar_div_vec3_def)
  note h = horizon_correction [OF binary32_rounding lt]
  have "smoothstep binary32 200000 600000 10000 = 0"
    using h [of 10000] by simp
  moreover have "smoothstep binary32 200000 600000 700000 = 1"
    using h [of 700000] by simp
  moreover have "smoothstep_t binary32 200000 600000 (4739125 / 8)
      \<le> smoothstep_t binary32 200000 600000 (9478251 / 16)"
    using h [of "4739125 / 8" "9478251 / 16"] le by blast
  moreover have "smoothstep (\<lambda>x. x) 200000 600000 (4739125 / 8)
      \<le> smoothstep (\<lambda>x. x) 200000 600000 (9478251 / 16)"
    using h [of "4739125 / 8" "9478251 / 16"] le by blast
  moreover have "correctGeometricError (overhead_scene (1 / 2)) 200000 600000
      (Vec3 0 0 5, Vec3 0 0 1) = (Vec3 0 0 5, Vec3 0 0 1)"
    using h [of _ _ "overhead_scene (1 / 2)" "Vec3 0 0 5"] c e by blast
  ultimately show ?thesis by blast
qed

text \<open>
  The claim as stated fails in binary32 with the edges 2e5 and 6e5: from the height
  592390.625 to the next binary32 number, 592390.6875, both between the edges, the factor
  decreases from 16759233 / 2^24 to 16759232 / 2^24.
\<close>

theorem horizon_correction_counterexample:
  "(4739125 / 8 :: real) \<le> 9478251 / 16
   \<and> smoothstep binary32 200000 600000 (4739125 / 8) = 16759233 / 16777216
   \<and> smoothstep binary32 200000 600000 (9478251 / 16) = 261863 / 262144
   \<and> \<not> (smoothstep binary32 200000 600000 (4739125 / 8)
          \<le> smoothstep binary32 200000 600000 (9478251 / 16))"
  unfolding smoothstep_low_height smoothstep_high_height by simp

section \<open>Debug views\<close>

lemma set_define_update:
  "set_define flag name m =
     m\<lparr>materialDefines := (materialDefines m)(name := if flag then Some ''1'' else None)\<rparr>"
  by (simp add: set_define_def)

lemma render_debug_effect_Some:
  "render_debug_effect panel (Some p) =
     Some (p\<lparr>currentMaterial := (currentMaterial p)
       \<lparr>materialDefines := (materialDefines (currentMaterial p))
          (''DEBUG_SHOW_SAMPLE_COUNT'' := if showSampleCount panel then Some ''1'' else None,
           ''DEBUG_SHOW_FRONT_DEPTH'' := if showFrontDepth panel then Some ''1'' else None,
           ''DEBUG_SHOW_SHADOW_MAP'' := if showShadowMap panel then Some ''1'' else None,
           ''DEBUG_SHOW_CASCADES'' := if showCascades panel then Some ''1'' else None,
           ''DEBUG_SHOW_UV'' := if showUv panel then Some ''1'' else None),
        needsUpdate := True\<rparr>\<rparr>)"
  by (simp add: render_debug_effect_def set_define_update Let_def)

lemma resolve_debug_effect_Some:
  "resolve_debug_effect panel (Some p) =
     Some (p\<lparr>resolveMaterial := (resolveMaterial p)
       \<lparr>materialDefines := (materialDefines (resolveMaterial p))
          (''DEBUG_SHOW_SHADOW_LENGTH'' := if showShadowLength panel then Some ''1'' else None,
           ''DEBUG_SHOW_VELOCITY'' := if showVelocity panel then Some ''1'' else None),
        needsUpdate := True\<rparr>\<rparr>)"
  by (simp add: resolve_debug_effect_def set_define_update Let_def)


lemma render_lookup:
  assumes "render_debug_effect panel (Some p) = Some p1"
  shows "materialDefines (currentMaterial p1) ''DEBUG_SHOW_SAMPLE_COUNT''
           = (if showSampleCount panel then Some ''1'' else None)"
    and "materialDefines (currentMaterial p1) ''DEBUG_SHOW_FRONT_DEPTH''
           = (if showFrontDepth panel then Some ''1'' else None)"
    and "materialDefines (currentMaterial p1) ''DEBUG_SHOW_SHADOW_MAP''
           = (if showShadowMap panel then Some ''1'' else None)"
    and "materialDefines (currentMaterial p1) ''DEBUG_SHOW_CASCADES''
           = (if showCascades panel then Some ''1'' else None)"
    and "materialDefines (currentMaterial p1) ''DEBUG_SHOW_UV''
           = (if showUv panel then Some ''1'' else None)"
    and "resolveMaterial p1 = resolveMaterial p"
proof -
  from assms have p1: "p1 = p\<lparr>currentMaterial := (currentMaterial p)
       \<lparr>materialDefines := (materialDefines (currentMaterial p))
          (''DEBUG_SHOW_SAMPLE_COUNT'' := if showSampleCount panel then Some ''1'' else None,
           ''DEBUG_SHOW_FRONT_DEPTH'' := if showFrontDepth panel then Some ''1'' else None,
           ''DEBUG_SHOW_SHADOW_MAP'' := if showShadowMap panel then Some ''1'' else None,
           ''DEBUG_SHOW_CASCADES'' := if showCascades panel then Some ''1'' else None,
           ''DEBUG_SHOW_UV'' := if showUv panel then Some ''1'' else None),
        needsUpdate := True\<rparr>\<rparr>"
    unfolding render_debug_effect_Some by (simp only: option.inject)
  show "materialDefines (currentMaterial p1) ''DEBUG_SHOW_SAMPLE_COUNT''
           = (if showSampleCount panel then Some ''1'' else None)"
    unfolding p1 by (simp split del: if_split)
  show "materialDefines (currentMaterial p1) ''DEBUG_SHOW_FRONT_DEPTH''
           = (if showFrontDepth panel then Some ''1'' else None)"
    unfolding p1 by (simp split del: if_split)
  show "materialDefines (currentMaterial p1) ''DEBUG_SHOW_SHADOW_MAP''
           = (if showShadowMap panel then Some ''1'' else None)"
    unfolding p1 by (simp split del: if_split)
  show "materialDefines (currentMaterial p1) ''DEBUG_SHOW_CASCADES''
           = (if showCascades panel then Some ''1'' else None)"
    unfolding p1 by (simp split del: if_split)
  show "materialDefines (currentMaterial p1) ''DEBUG_SHOW_UV''
           = (if showUv panel then Some ''1'' else None)"
    unfolding p1 by (simp split del: if_split)
  show "resolveMaterial p1 = resolveMaterial p"
    unfolding p1 by simp
qed

lemma resolve_lookup:
  assumes "resolve_debug_effect panel (Some p) = Some p2"
  shows "materialDefines (resolveMaterial p2) ''DEBUG_SHOW_SHADOW_LENGTH''
           = (if showShadowLength panel then Some ''1'' else None)"
    and "materialDefines (resolveMaterial p2) ''DEBUG_SHOW_VELOCITY''
           = (if showVelocity panel then Some ''1'' else None)"
    and "currentMaterial p2 = currentMaterial p"
proof -
  from assms have p2: "p2 = p\<lparr>resolveMaterial := (resolveMaterial p)
       \<lparr>materialDefines := (materialDefines (resolveMaterial p))
          (''DEBUG_SHOW_SHADOW_LENGTH'' := if showShadowLength panel then Some ''1'' else None,
           ''DEBUG_SHOW_VELOCITY'' := if showVelocity panel then Some ''1'' else None),
        needsUpdate := True\<rparr>\<rparr>"
    unfolding resolve_debug_effect_Some by (simp only: option.inject)
  show "materialDefines (resolveMaterial p2) ''DEBUG_SHOW_SHADOW_LENGTH''
           = (if showShadowLength panel then Some ''1'' else None)"
    unfolding p2 by (simp split del: if_split)
  show "materialDefines (resolveMaterial p2) ''DEBUG_SHOW_VELOCITY''
           = (if showVelocity panel then Some ''1'' else None)"
    unfolding p2 by (simp split del: if_split)
  show "currentMaterial p2 = currentMaterial p"
    unfolding p2 by simp
qed

text \<open>
  Claim C8, as amended. On a pass, the two effects succeed, and afterwards each of the seven
  debug defines is present exactly when its own checkbox is set, whatever the other six are.
  Whenever the sample count, front depth, UV, shadow map or shadow length view is set, the
  returned \<open>toneMapping\<close> flag is false.
\<close>

theorem debug_views:
  "\<exists>p1 p2. render_debug_effect panel (Some p) = Some p1
     \<and> resolve_debug_effect panel (Some p1) = Some p2
     \<and> (materialDefines (currentMaterial p2) ''DEBUG_SHOW_SAMPLE_COUNT'' \<noteq> None
          \<longleftrightarrow> showSampleCount panel)
     \<and> (materialDefines (currentMaterial p2) ''DEBUG_SHOW_FRONT_DEPTH'' \<noteq> None
          \<longleftrightarrow> showFrontDepth panel)
     \<and> (materialDefines (currentMaterial p2) ''DEBUG_SHOW_SHADOW_MAP'' \<noteq> None
          \<longleftrightarrow> showShadowMap panel)
     \<and> (materialDefines (currentMaterial p2) ''DEBUG_SHOW_CASCADES'' \<noteq> None
          \<longleftrightarrow> showCascades panel)
     \<and> (materialDefines (currentMaterial p2) ''DEBUG_SHOW_UV'' \<noteq> None
          \<longleftrightarrow> showUv panel)
     \<and> (materialDefines (resolveMaterial p2) ''DEBUG_SHOW_SHADOW_LENGTH'' \<noteq> None
          \<longleftrightarrow> showShadowLength panel)
     \<and> (materialDefines (resolveMaterial p2) ''DEBUG_SHOW_VELOCITY'' \<noteq> None
          \<longleftrightarrow> showVelocity panel)
     \<and> (showSampleCount panel \<or> showFrontDepth panel \<or> showUv panel
          \<or> showShadowMap panel \<or> showShadowLength panel \<longrightarrow> \<not> toneMapping panel)"
proof -
  obtain p1 where p1: "render_debug_effect panel (Some p) = Some p1"
    unfolding render_debug_effect_Some by blast
  obtain p2 where p2: "resolve_debug_effect panel (Some p1) = Some p2"
    unfolding resolve_debug_effect_Some by blast
  note r = render_lookup [OF p1] and s = resolve_lookup [OF p2]
  have a: "materialDefines (currentMaterial p2) ''DEBUG_SHOW_SAMPLE_COUNT'' \<noteq> None
      \<longleftrightarrow> showSampleCount panel"
    unfolding s(3) r(1) by simp
  have b: "materialDefines (currentMaterial p2) ''DEBUG_SHOW_FRONT_DEPTH'' \<noteq> None
      \<longleftrightarrow> showFrontDepth panel"
    unfolding s(3) r(2) by simp
  have c: "materialDefines (currentMaterial p2) ''DEBUG_SHOW_SHADOW_MAP'' \<noteq> None
      \<longleftrightarrow> showShadowMap panel"
    unfolding s(3) r(3) by simp
  have d: "materialDefines (currentMaterial p2) ''DEBUG_SHOW_CASCADES'' \<noteq> None
      \<longleftrightarrow> showCascades panel"
    unfolding s(3) r(4) by simp
  have e: "materialDefines (currentMaterial p2) ''DEBUG_SHOW_UV'' \<noteq> None
      \<longleftrightarrow> showUv panel"
    unfolding s(3) r(5) by simp
  have f: "materialDefines (resolveMaterial p2) ''DEBUG_SHOW_SHADOW_LENGTH'' \<noteq> None
      \<longleftrightarrow> showShadowLength panel"
    unfolding s(1) by simp
  have g: "materialDefines (resolveMaterial p2) ''DEBUG_SHOW_VELOCITY'' \<noteq> None
      \<longleftrightarrow> showVelocity panel"
    unfolding s(2) by simp
  have t: "showSampleCount panel \<or> showFrontDepth panel \<or> showUv panel
      \<or> showShadowMap panel \<or> showShadowLength panel \<longrightarrow> \<not> toneMapping panel"
    unfolding toneMapping_def by blast
  show ?thesis
    by (intro exI conjI; (fact p1 p2 a b c d e f g t)?)
qed

theorem debug_views_witness:
  "toneMapping (no_debug\<lparr>showUv := True\<rparr>) = False
   \<and> toneMapping no_debug = True"
proof -
  have u: "showUv (no_debug\<lparr>showUv := True\<rparr>)"
    by simp
  have "showSampleCount (no_debug\<lparr>showUv := True\<rparr>) \<or> showFrontDepth (no_debug\<lparr>showUv := True\<rparr>)
      \<or> showUv (no_debug\<lparr>showUv := True\<rparr>) \<or> showShadowMap (no_debug\<lparr>showUv := True\<rparr>)
      \<or> showShadowLength (no_debug\<lparr>showUv := True\<rparr>)
      \<longrightarrow> \<not> toneMapping (no_debug\<lparr>showUv := True\<rparr>)"
    using debug_views [of "no_debug\<lparr>showUv := True\<rparr>" fresh_pass] by blast
  with u have "\<not> toneMapping (no_debug\<lparr>showUv := True\<rparr>)"
    by blast
  moreover have "toneMapping no_debug"
    by (simp add: toneMapping_def no_debug_def)
  ultimately show ?thesis by simp
qed

text \<open>
  The claim as stated fails with the cascade and velocity boxes both checked: two debug views
  are active at once, and the \<open>toneMapping\<close> flag is true.
\<close>

theorem debug_views_counterexample:
  "map_option active_debug_views
     (Option.bind
       (render_debug_effect (no_debug\<lparr>showCascades := True, showVelocity := True\<rparr>)
         (Some fresh_pass))
       (\<lambda>p1. resolve_debug_effect (no_debug\<lparr>showCascades := True, showVelocity := True\<rparr>)
         (Some p1)))
     = Some [''DEBUG_SHOW_CASCADES'', ''DEBUG_SHOW_VELOCITY'']
   \<and> toneMapping (no_debug\<lparr>showCascades := True, showVelocity := True\<rparr>) = True"
proof -
  let ?panel = "no_debug\<lparr>showCascades := True, showVelocity := True\<rparr>"
  have flags: "\<not> showSampleCount ?panel" "\<not> showFrontDepth ?panel" "\<not> showShadowMap ?panel"
      "showCascades ?panel" "\<not> showUv ?panel" "\<not> showShadowLength ?panel" "showVelocity ?panel"
    by (simp_all add: no_debug_def)
  obtain p1 where p1: "render_debug_effect ?panel (Some fresh_pass) = Some p1"
    unfolding render_debug_effect_Some by blast
  obtain p2 where p2: "resolve_debug_effect ?panel (Some p1) = Some p2"
    unfolding resolve_debug_effect_Some by blast
  note r = render_lookup [OF p1] and s = resolve_lookup [OF p2]
  have "active_debug_views p2 = [''DEBUG_SHOW_CASCADES'', ''DEBUG_SHOW_VELOCITY'']"
    by (simp add: active_debug_views_def s r flags)
  moreover have "toneMapping ?panel"
    unfolding toneMapping_def using flags by blast
  ultimately show ?thesis
    by (simp add: p1 p2)
qed

section \<open>The variance-clip bound\<close>

lemma sum_square_deviation:
  fixes xs :: "real list"
  shows "(\<Sum>x\<leftarrow>xs. (x - m) * (x - m)) =
           (\<Sum>x\<leftarrow>xs. x * x) - 2 * m * sum_list xs + real (length xs) * (m * m)"
  by (induction xs) (simp_all add: algebra_simps)

lemma mean_square_ge:
  fixes xs :: "real list"
  shows "(sum_list xs / real (length xs)) * (sum_list xs / real (length xs))
           \<le> (\<Sum>x\<leftarrow>xs. x * x) / real (length xs)"
proof (cases "xs = []")
  case True
  then show ?thesis by simp
next
  case False
  define n where "n = real (length xs)"
  define m where "m = sum_list xs / n"
  have n: "0 < n" using False by (simp add: n_def)
  have s: "sum_list xs = n * m" using n by (simp add: m_def)
  have "0 \<le> (\<Sum>x\<leftarrow>xs. (x - m) * (x - m))"
    by (rule sum_list_nonneg) auto
  then have "0 \<le> (\<Sum>x\<leftarrow>xs. x * x) - 2 * m * (n * m) + n * (m * m)"
    unfolding sum_square_deviation s n_def [symmetric] .
  then have "n * (m * m) \<le> (\<Sum>x\<leftarrow>xs. x * x)"
    by (simp add: algebra_simps)
  then have "m * m \<le> (\<Sum>x\<leftarrow>xs. x * x) / n"
    using n by (simp add: le_divide_eq mult.commute)
  then show ?thesis by (simp add: m_def n_def)
qed

lemma channel_cases:
  assumes "ch \<in> set channels"
  obtains "ch = r4" | "ch = g4" | "ch = b4" | "ch = a4"
  using assms by (auto simp: channels_def)

lemma channel_sum:
  assumes "ch \<in> set channels"
  shows "ch (foldr vec4_add ws (Vec4 0 0 0 0)) = sum_list (map ch ws)"
  using assms by (cases rule: channel_cases; induction ws) (simp_all add: vec4_add_def)

lemma channel_mean:
  assumes "ch \<in> set channels"
  shows "ch (mean4 ws) = sum_list (map ch ws) / real (length ws)"
proof -
  have "ch (vec4_scale k v) = k * ch v" for k v
    using assms by (cases rule: channel_cases) (simp_all add: vec4_scale_def)
  then show ?thesis
    by (simp add: mean4_def channel_sum [OF assms])
qed

lemma channel_variance_nonneg:
  assumes "ch \<in> set channels"
  shows "0 \<le> ch (variance4 ws)"
proof -
  have v: "ch (variance4 ws) =
      ch (mean4 (map (\<lambda>s. vec4_mul s s) ws)) - ch (mean4 ws) * ch (mean4 ws)"
    using assms by (cases rule: channel_cases) (simp_all add: variance4_def vec4_sub_def vec4_mul_def)
  have sq: "map ch (map (\<lambda>s. vec4_mul s s) ws) = map (\<lambda>x. x * x) (map ch ws)"
    using assms by (cases rule: channel_cases) (simp_all add: vec4_mul_def)
  show ?thesis
    unfolding v channel_mean [OF assms] sq
    using mean_square_ge [of "map ch ws"] by simp
qed

lemma clip_scale_bounds:
  assumes "0 \<le> e"
  shows "0 \<le> clip_scale e d" and "clip_scale e d \<le> 1" and "clip_scale e d * \<bar>d\<bar> \<le> e"
  using assms by (auto simp: clip_scale_def)

lemma clip_to_box_bound:
  assumes "\<forall>ch\<in>set channels. 0 \<le> ch extent"
  shows "\<exists>s. 0 \<le> s \<and> s \<le> 1
           \<and> clip_to_box centre extent history
               = vec4_add centre (vec4_scale s (vec4_sub history centre))
           \<and> (\<forall>ch\<in>set channels. \<bar>ch (clip_to_box centre extent history) - ch centre\<bar>
                 \<le> ch extent)"
proof -
  define d where "d = vec4_sub history centre"
  define s where "s = min (min (clip_scale (r4 extent) (r4 d)) (clip_scale (g4 extent) (g4 d)))
      (min (clip_scale (b4 extent) (b4 d)) (clip_scale (a4 extent) (a4 d)))"
  have e: "0 \<le> r4 extent" "0 \<le> g4 extent" "0 \<le> b4 extent" "0 \<le> a4 extent"
    using assms by (simp_all add: channels_def)
  have s0: "0 \<le> s" and s1: "s \<le> 1"
    using clip_scale_bounds(1,2) [OF e(1), of "r4 d"] clip_scale_bounds(1,2) [OF e(2), of "g4 d"]
      clip_scale_bounds(1,2) [OF e(3), of "b4 d"] clip_scale_bounds(1,2) [OF e(4), of "a4 d"]
    by (simp_all add: s_def)
  have res: "clip_to_box centre extent history = vec4_add centre (vec4_scale s d)"
    by (simp add: clip_to_box_def Let_def s_def d_def)
  have le: "s \<le> clip_scale (r4 extent) (r4 d)" "s \<le> clip_scale (g4 extent) (g4 d)"
      "s \<le> clip_scale (b4 extent) (b4 d)" "s \<le> clip_scale (a4 extent) (a4 d)"
    by (simp_all add: s_def)
  have step: "\<bar>s * x\<bar> \<le> ex" if "s \<le> clip_scale ex x" "0 \<le> ex" for ex x
  proof -
    have "\<bar>s * x\<bar> = s * \<bar>x\<bar>" using s0 by (simp add: abs_mult)
    also have "\<dots> \<le> clip_scale ex x * \<bar>x\<bar>" using that(1) by (simp add: mult_right_mono)
    also have "\<dots> \<le> ex" using clip_scale_bounds(3) [OF that(2)] .
    finally show ?thesis .
  qed
  have b: "\<forall>ch\<in>set channels. \<bar>ch (clip_to_box centre extent history) - ch centre\<bar> \<le> ch extent"
    unfolding res using step [OF le(1) e(1)] step [OF le(2) e(2)] step [OF le(3) e(3)]
      step [OF le(4) e(4)]
    by (simp add: channels_def vec4_add_def vec4_scale_def)
  from s0 s1 res b show ?thesis unfolding d_def by blast
qed

lemma ramp_samples:
  "window3x3 ramp_buffer (IVec2 0 0) =
     [Vec4 (- 1) 0 0 0, Vec4 (- 1) 0 0 0, Vec4 (- 1) 0 0 0,
      Vec4 0 0 0 0, Vec4 0 0 0 0, Vec4 0 0 0 0,
      Vec4 1 0 0 0, Vec4 1 0 0 0, Vec4 1 0 0 0]"
  by (simp add: window3x3_def neighborOffsets_def texelFetchOffset_def ivec2_add_def
      ramp_buffer_def)

lemma ramp_mean: "mean4 (window3x3 ramp_buffer (IVec2 0 0)) = Vec4 0 0 0 0"
  unfolding ramp_samples by (simp add: mean4_def vec4_add_def vec4_scale_def)

lemma ramp_variance: "variance4 (window3x3 ramp_buffer (IVec2 0 0)) = Vec4 (2 / 3) 0 0 0"
  unfolding variance4_def ramp_mean unfolding ramp_samples
  by (simp add: mean4_def vec4_add_def vec4_scale_def vec4_mul_def vec4_sub_def)

lemma clip_one_channel:
  "clip_to_box (Vec4 0 0 0 0) (Vec4 e 0 0 0) (Vec4 1 0 0 0) = Vec4 (min 1 (clip_scale e 1)) 0 0 0"
  by (simp add: clip_to_box_def vec4_add_def vec4_scale_def vec4_sub_def)
    (simp add: clip_scale_def)

lemma ramp_clip:
  "varianceClipping_spec ramp_buffer (IVec2 0 0) (Vec4 0 0 0 0) (Vec4 1 0 0 0) 1
     = Vec4 (2 / 3) 0 0 0"
  "varianceClipping_spec ramp_buffer (IVec2 0 0) (Vec4 0 0 0 0) (Vec4 1 0 0 0) (- 1)
     = Vec4 (- (2 / 3)) 0 0 0"
  unfolding varianceClipping_spec_def Let_def ramp_mean ramp_variance
  by (simp_all add: vec4_scale_def clip_one_channel) (simp_all add: clip_scale_def)

text \<open>
  Claim C6, as amended. For every buffer, coordinate, history sample and every
  \<open>gamma \<ge> 0\<close>, each channel of the clipped result lies between mean minus gamma times
  variance and mean plus gamma times variance, mean and variance taken over the 3x3 window of
  the current sample, and the result is a point of the segment from the mean to the history
  sample. With this clipping function and a non-negative \<open>varianceGamma\<close>, the colour that
  \<open>temporalUpscale\<close> outputs from an accepted history lies in that box.
\<close>

theorem variance_clip_bound:
  assumes "0 \<le> gamma"
  shows "(\<forall>ch\<in>set channels.
            ch (mean4 (window3x3 buffer coord)) - gamma * ch (variance4 (window3x3 buffer coord))
              \<le> ch (varianceClipping_spec buffer coord current history gamma)
          \<and> ch (varianceClipping_spec buffer coord current history gamma)
              \<le> ch (mean4 (window3x3 buffer coord))
                  + gamma * ch (variance4 (window3x3 buffer coord)))
       \<and> (\<exists>s. 0 \<le> s \<and> s \<le> 1
            \<and> varianceClipping_spec buffer coord current history gamma
                = vec4_add (mean4 (window3x3 buffer coord))
                    (vec4_scale s (vec4_sub history (mean4 (window3x3 buffer coord)))))
       \<and> (varianceClipping env = varianceClipping_spec \<and> varianceGamma env = gamma
            \<and> \<not> cur \<and> \<not> rejected (prevUv env sub) \<longrightarrow>
          (\<forall>ch\<in>set channels.
             \<bar>ch (outputColor (temporalUpscale defs env pixel sub cur))
                - ch (mean4 (window3x3 (colorBuffer env) sub))\<bar>
               \<le> gamma * ch (variance4 (window3x3 (colorBuffer env) sub))))"
proof -
  have ext: "\<forall>ch\<in>set channels. 0 \<le> ch (vec4_scale gamma (variance4 ws))" for ws
  proof
    fix ch assume ch: "ch \<in> set channels"
    have "ch (vec4_scale gamma (variance4 ws)) = gamma * ch (variance4 ws)"
      using ch by (cases rule: channel_cases) (simp_all add: vec4_scale_def)
    then show "0 \<le> ch (vec4_scale gamma (variance4 ws))"
      using assms channel_variance_nonneg [OF ch, of ws] by simp
  qed
  have box: "\<exists>s. 0 \<le> s \<and> s \<le> 1
      \<and> varianceClipping_spec b c cu hi gamma
          = vec4_add (mean4 (window3x3 b c)) (vec4_scale s (vec4_sub hi (mean4 (window3x3 b c))))
      \<and> (\<forall>ch\<in>set channels.
            \<bar>ch (varianceClipping_spec b c cu hi gamma) - ch (mean4 (window3x3 b c))\<bar>
              \<le> gamma * ch (variance4 (window3x3 b c)))" for b c cu hi
  proof -
    let ?ws = "window3x3 b c"
    let ?e = "vec4_scale gamma (variance4 ?ws)"
    have vc: "varianceClipping_spec b c cu hi gamma = clip_to_box (mean4 ?ws) ?e hi"
      by (simp add: varianceClipping_spec_def Let_def)
    from clip_to_box_bound [OF ext [of ?ws], of "mean4 ?ws" hi]
    obtain s where s: "0 \<le> s" "s \<le> 1"
      "clip_to_box (mean4 ?ws) ?e hi
        = vec4_add (mean4 ?ws) (vec4_scale s (vec4_sub hi (mean4 ?ws)))"
      and b: "\<forall>ch\<in>set channels. \<bar>ch (clip_to_box (mean4 ?ws) ?e hi) - ch (mean4 ?ws)\<bar>
        \<le> ch ?e"
      by blast
    have "\<forall>ch\<in>set channels.
        \<bar>ch (varianceClipping_spec b c cu hi gamma) - ch (mean4 ?ws)\<bar>
          \<le> gamma * ch (variance4 ?ws)"
    proof
      fix ch assume ch: "ch \<in> set channels"
      have "ch ?e = gamma * ch (variance4 ?ws)"
        using ch by (cases rule: channel_cases) (simp_all add: vec4_scale_def)
      with b ch show "\<bar>ch (varianceClipping_spec b c cu hi gamma) - ch (mean4 ?ws)\<bar>
          \<le> gamma * ch (variance4 ?ws)"
        unfolding vc by metis
    qed
    with s show ?thesis unfolding vc by blast
  qed
  from box [of buffer coord current history] obtain s where s: "0 \<le> s" "s \<le> 1"
    "varianceClipping_spec buffer coord current history gamma
      = vec4_add (mean4 (window3x3 buffer coord))
          (vec4_scale s (vec4_sub history (mean4 (window3x3 buffer coord))))"
    and b: "\<forall>ch\<in>set channels.
      \<bar>ch (varianceClipping_spec buffer coord current history gamma)
        - ch (mean4 (window3x3 buffer coord))\<bar>
        \<le> gamma * ch (variance4 (window3x3 buffer coord))"
    by blast
  have one: "\<forall>ch\<in>set channels.
      ch (mean4 (window3x3 buffer coord)) - gamma * ch (variance4 (window3x3 buffer coord))
        \<le> ch (varianceClipping_spec buffer coord current history gamma)
      \<and> ch (varianceClipping_spec buffer coord current history gamma)
        \<le> ch (mean4 (window3x3 buffer coord)) + gamma * ch (variance4 (window3x3 buffer coord))"
  proof
    fix ch assume "ch \<in> set channels"
    with b have "\<bar>ch (varianceClipping_spec buffer coord current history gamma)
        - ch (mean4 (window3x3 buffer coord))\<bar>
        \<le> gamma * ch (variance4 (window3x3 buffer coord))"
      by blast
    then show "ch (mean4 (window3x3 buffer coord))
          - gamma * ch (variance4 (window3x3 buffer coord))
        \<le> ch (varianceClipping_spec buffer coord current history gamma)
      \<and> ch (varianceClipping_spec buffer coord current history gamma)
        \<le> ch (mean4 (window3x3 buffer coord)) + gamma * ch (variance4 (window3x3 buffer coord))"
      by linarith
  qed
  have two: "\<exists>s. 0 \<le> s \<and> s \<le> 1
      \<and> varianceClipping_spec buffer coord current history gamma
          = vec4_add (mean4 (window3x3 buffer coord))
              (vec4_scale s (vec4_sub history (mean4 (window3x3 buffer coord))))"
    using s by blast
  have three: "\<forall>ch\<in>set channels.
      \<bar>ch (outputColor (temporalUpscale defs env pixel sub cur))
        - ch (mean4 (window3x3 (colorBuffer env) sub))\<bar>
        \<le> gamma * ch (variance4 (window3x3 (colorBuffer env) sub))"
    if h: "varianceClipping env = varianceClipping_spec \<and> varianceGamma env = gamma
      \<and> \<not> cur \<and> \<not> rejected (prevUv env sub)"
  proof -
    have "outputColor (temporalUpscale defs env pixel sub cur)
        = varianceClipping_spec (colorBuffer env) sub (colorBuffer env sub)
            (colorHistoryBuffer env (prevUv env sub)) gamma"
      using h by (simp add: temporalUpscale_def Let_def)
    then show ?thesis
      using box [of "colorBuffer env" sub "colorBuffer env sub"
          "colorHistoryBuffer env (prevUv env sub)"]
      by (elim exE conjE) (simp only:)
  qed
  from one two three show ?thesis by blast
qed

theorem variance_clip_bound_witness:
  "r4 (varianceClipping_spec ramp_buffer (IVec2 0 0) (Vec4 0 0 0 0) (Vec4 1 0 0 0) 1) = 2 / 3
   \<and> r4 (mean4 (window3x3 ramp_buffer (IVec2 0 0)))
       + 1 * r4 (variance4 (window3x3 ramp_buffer (IVec2 0 0))) = 2 / 3
   \<and> r4 (varianceClipping_spec ramp_buffer (IVec2 0 0) (Vec4 0 0 0 0) (Vec4 1 0 0 0) 1)
       \<le> r4 (mean4 (window3x3 ramp_buffer (IVec2 0 0)))
           + 1 * r4 (variance4 (window3x3 ramp_buffer (IVec2 0 0)))
   \<and> \<bar>r4 (outputColor (temporalUpscale shadow_defines
          ((uniform_scene (Vec4 5 1 0 0) (Vec2 (1 / 2) (1 / 2)))
             \<lparr>colorBuffer := ramp_buffer, varianceGamma := 1,
              varianceClipping := varianceClipping_spec\<rparr>)
          (IVec2 1 2) (IVec2 0 0) False))
        - r4 (mean4 (window3x3 ramp_buffer (IVec2 0 0)))\<bar>
       \<le> 1 * r4 (variance4 (window3x3 ramp_buffer (IVec2 0 0)))"
proof -
  let ?env = "(uniform_scene (Vec4 5 1 0 0) (Vec2 (1 / 2) (1 / 2)))
      \<lparr>colorBuffer := ramp_buffer, varianceGamma := 1,
       varianceClipping := varianceClipping_spec\<rparr>"
  have g: "(0::real) \<le> 1" by simp
  have ch: "r4 \<in> set channels" by (simp add: channels_def)
  from variance_clip_bound [OF g, of ramp_buffer "IVec2 0 0" "Vec4 0 0 0 0" "Vec4 1 0 0 0"] ch
  have a: "r4 (varianceClipping_spec ramp_buffer (IVec2 0 0) (Vec4 0 0 0 0) (Vec4 1 0 0 0) 1)
      \<le> r4 (mean4 (window3x3 ramp_buffer (IVec2 0 0)))
          + 1 * r4 (variance4 (window3x3 ramp_buffer (IVec2 0 0)))"
    by blast
  have uv: "prevUv ?env (IVec2 0 0) = Vec2 (49 / 100) (1 / 2)"
    by (simp add: prevUv_cong [of ?env "uniform_scene (Vec4 5 1 0 0) (Vec2 (1 / 2) (1 / 2))"]
        uniform_scene_prevUv)
  have h: "varianceClipping ?env = varianceClipping_spec \<and> varianceGamma ?env = 1
      \<and> \<not> False \<and> \<not> rejected (prevUv ?env (IVec2 0 0))"
    by (simp add: uv rejected_def)
  have cb: "colorBuffer ?env = ramp_buffer"
    by simp
  from variance_clip_bound [OF g, of _ _ _ _ ?env False "IVec2 0 0" shadow_defines "IVec2 1 2"]
    h ch
  have b: "\<bar>r4 (outputColor (temporalUpscale shadow_defines ?env (IVec2 1 2) (IVec2 0 0) False))
        - r4 (mean4 (window3x3 (colorBuffer ?env) (IVec2 0 0)))\<bar>
      \<le> 1 * r4 (variance4 (window3x3 (colorBuffer ?env) (IVec2 0 0)))"
    by blast
  from a b show ?thesis
    unfolding cb by (simp add: ramp_clip ramp_mean ramp_variance)
qed

text \<open>
  The claim as stated fails for a negative gamma over a window of positive variance: the
  interval is empty. With gamma = -1 the lower bound is 2/3 and the result is -2/3.
\<close>

theorem variance_clip_bound_counterexample:
  "r4 (mean4 (window3x3 ramp_buffer (IVec2 0 0)))
     - (- 1) * r4 (variance4 (window3x3 ramp_buffer (IVec2 0 0))) = 2 / 3
   \<and> r4 (varianceClipping_spec ramp_buffer (IVec2 0 0) (Vec4 0 0 0 0) (Vec4 1 0 0 0) (- 1))
       = - (2 / 3)
   \<and> \<not> (r4 (mean4 (window3x3 ramp_buffer (IVec2 0 0)))
           - (- 1) * r4 (variance4 (window3x3 ramp_buffer (IVec2 0 0)))
         \<le> r4 (varianceClipping_spec ramp_buffer (IVec2 0 0) (Vec4 0 0 0 0) (Vec4 1 0 0 0)
               (- 1)))"
  by (simp add: ramp_clip ramp_mean ramp_variance)

end
